theory Spec2Isabelle
  imports Complex_Main "HOL-Library.AList" "HOL-Library.Multiset"
begin


section \<open>Data model of the editor (src/src/drawflow.js)\<close>

text \<open>
  The editor keeps its graph in \<open>this.drawflow.drawflow\<close>: an object keyed by module
  name, each module an object \<open>{data: {id: node}}\<close>.  JavaScript objects are modelled
  as association lists in enumeration order (keys are unique in a JavaScript object, so the
  lists of a real state have distinct keys).  A module is represented by its \<open>data\<close>
  object, the only field it has.

  Numbers (coordinates, zoom levels) are exact rationals; identifiers and port labels are
  strings, as the keys of the objects are.
\<close>

datatype json =
    JNull
  | JBool bool
  | JNum rat
  | JStr string
  | JArr "json list"
  | JObj "(string \<times> json) list"

text \<open>
  A connection entry of a port.  In an \<open>outputs\<close> list the entry is
  \<open>{node, output, points?}\<close>, in an \<open>inputs\<close> list it is \<open>{node, input}\<close>: field
  \<open>port\<close> stands for the JSON field \<open>output\<close> on the output side and for \<open>input\<close> on the
  input side (it is always the label of the port at the other end).
\<close>

record conn =
  node :: string
  port :: string
  points :: "(rat \<times> rat) list option"

record dfnode =
  node_id :: string
  name :: string
  data :: json
  node_class :: string
  html :: string
  typenode :: bool
  inputs :: "(string \<times> conn list) list"
  outputs :: "(string \<times> conn list) list"
  pos_x :: rat
  pos_y :: rat

text \<open>The payloads of \<open>dispatch(event, details)\<close>; the model logs every dispatch.\<close>

datatype event =
    ConnectionCreated string string string string
  | ConnectionRemoved string string string string
  | NodeCreated string
  | NodeRemoved string
  | ModuleCreated string
  | ModuleChanged string
  | ModuleRemoved string
  | Zoom rat
  | Import
  | Export

text \<open>
  What a call can throw: a \<open>TypeError\<close> (a property read on \<open>undefined\<close> or \<open>null\<close>),
  a \<open>SyntaxError\<close> (\<open>JSON.parse(undefined)\<close>), or the \<open>Error\<close> objects the module
  functions create themselves.
\<close>

datatype error = TypeError | SyntaxError | Error string

text \<open>
  The part of the page the code reads back: the node boxes (\<open>div#node-ID\<close> with the class
  lists of its \<open>.input\<close> and \<open>.output\<close> children) and the \<open>svg.connection\<close> elements,
  both in document order.  An \<open>svg.connection\<close> is a pair of its identity (a number
  given at creation, \<open>next_el\<close> counts them) and its class list; \<open>connection_selected\<close>
  is the selected connection element, which may have left the page since it was selected.
  Class selectors of connections are resolved among the \<open>svg.connection\<close> elements.
\<close>

record node_el =
  el_id :: string
  el_inputs :: "string list list"
  el_outputs :: "string list list"

type_synonym store = "(string \<times> (string \<times> dfnode) list) list"

record editor =
  drawflow :: store
  module :: string
  nodeId :: nat
  useuuid :: bool
  reroute :: bool
  dom_nodes :: "node_el list"
  dom_connections :: "(nat \<times> string list) list"
  next_el :: nat
  connection_selected :: "(nat \<times> string list) option"
  events :: "event list"
  zoom :: rat
  zoom_max :: rat
  zoom_min :: rat
  zoom_value :: rat
  zoom_last_value :: rat
  canvas_x :: rat
  canvas_y :: rat

subsection \<open>Helpers: events, class lists, arrays\<close>

definition dispatch :: "event \<Rightarrow> editor \<Rightarrow> editor" where
  "dispatch e s = s\<lparr>events := events s @ [e]\<rparr>"

text \<open>\<open>classList.add\<close>: a class list holds a token once.\<close>

definition classList_add :: "string list \<Rightarrow> string \<Rightarrow> string list" where
  "classList_add cs c = (if c \<in> set cs then cs else cs @ [c])"

text \<open>A compound class selector \<open>.a.b.c\<close> matches an element that has every class.\<close>

definition has_classes :: "string list \<Rightarrow> string list \<Rightarrow> bool" where
  "has_classes sel cs = list_all (\<lambda>c. c \<in> set cs) sel"

text \<open>\<open>querySelector(sel).remove()\<close> over a list of elements: the first match goes.\<close>

fun remove_first :: "('a \<Rightarrow> bool) \<Rightarrow> 'a list \<Rightarrow> 'a list" where
  "remove_first P [] = []"
| "remove_first P (x # xs) = (if P x then xs else x # remove_first P xs)"

text \<open>\<open>Array.prototype.findIndex\<close>: the first index whose element satisfies \<open>P\<close>, or \<open>-1\<close>.\<close>

fun findIndex :: "('a \<Rightarrow> bool) \<Rightarrow> 'a list \<Rightarrow> int" where
  "findIndex P [] = -1"
| "findIndex P (x # xs) = (if P x then 0 else (let i = findIndex P xs in if i < 0 then -1 else i + 1))"

text \<open>
  \<open>xs.splice(i, 1)\<close>: a negative start counts from the end (and is clamped at 0), so
  \<open>splice(-1, 1)\<close> removes the last element; a start beyond the end removes nothing.
\<close>

definition splice1 :: "int \<Rightarrow> 'a list \<Rightarrow> 'a list" where
  "splice1 i xs =
     (let n = int (length xs);
          start = (if i < 0 then max (n + i) 0 else min i n)
      in take (nat start) xs @ drop (nat start + 1) xs)"

subsection \<open>Lookup of a node\<close>

text \<open>The two nested loops of \<open>getModuleFromNodeId\<close> over \<open>this.drawflow.drawflow\<close>:
  the last module that has the key wins.\<close>

definition module_of :: "store \<Rightarrow> string \<Rightarrow> string option" where
  "module_of editor i =
     fold (\<lambda>(moduleName, dat) nameModule.
             fold (\<lambda>(k, _) nm. if k = i then Some moduleName else nm) dat nameModule)
          editor None"

definition getModuleFromNodeId :: "editor \<Rightarrow> string \<Rightarrow> string option" where
  "getModuleFromNodeId s i = module_of (drawflow s) i"

text \<open>
  \<open>getNodeFromId\<close> reads \<open>this.drawflow.drawflow[moduleName].data[id]\<close> and clones it
  through JSON.  With \<open>moduleName\<close> undefined the read of \<open>.data\<close> throws.  On the
  immutable values of this model the clone is the node itself; the copy as a fresh object
  is the subject of the heap model of section ``Deep copies''.
\<close>

definition getNodeFromId :: "editor \<Rightarrow> string \<Rightarrow> error + dfnode" where
  "getNodeFromId s i =
     (case getModuleFromNodeId s i of
        None \<Rightarrow> Inl TypeError
      | Some moduleName \<Rightarrow>
          (case map_of (drawflow s) moduleName of
             None \<Rightarrow> Inl TypeError
           | Some dat \<Rightarrow>
               (case map_of dat i of
                  None \<Rightarrow> Inl SyntaxError
                | Some n \<Rightarrow> Inr n)))"

subsection \<open>Writes into the store\<close>

definition map_node :: "string \<Rightarrow> string \<Rightarrow> (dfnode \<Rightarrow> dfnode) \<Rightarrow> store \<Rightarrow> store" where
  "map_node m i f d = AList.map_entry m (AList.map_entry i f) d"

definition map_output :: "string \<Rightarrow> string \<Rightarrow> string \<Rightarrow> (conn list \<Rightarrow> conn list) \<Rightarrow> editor \<Rightarrow> editor" where
  "map_output m i oc f s =
     s\<lparr>drawflow := map_node m i (\<lambda>n. n\<lparr>outputs := AList.map_entry oc f (outputs n)\<rparr>) (drawflow s)\<rparr>"

definition map_input :: "string \<Rightarrow> string \<Rightarrow> string \<Rightarrow> (conn list \<Rightarrow> conn list) \<Rightarrow> editor \<Rightarrow> editor" where
  "map_input m i ic f s =
     s\<lparr>drawflow := map_node m i (\<lambda>n. n\<lparr>inputs := AList.map_entry ic f (inputs n)\<rparr>) (drawflow s)\<rparr>"

text \<open>The connection lists \<open>data[i].outputs[oc].connections\<close> and \<open>data[i].inputs[ic].connections\<close>
  of module \<open>m\<close>; \<open>None\<close> where the JavaScript read would throw.\<close>

definition output_conns :: "store \<Rightarrow> string \<Rightarrow> string \<Rightarrow> string \<Rightarrow> conn list option" where
  "output_conns d m i oc =
     (case map_of d m of None \<Rightarrow> None
      | Some dat \<Rightarrow> (case map_of dat i of None \<Rightarrow> None
          | Some n \<Rightarrow> map_of (outputs n) oc))"

definition input_conns :: "store \<Rightarrow> string \<Rightarrow> string \<Rightarrow> string \<Rightarrow> conn list option" where
  "input_conns d m i ic =
     (case map_of d m of None \<Rightarrow> None
      | Some dat \<Rightarrow> (case map_of dat i of None \<Rightarrow> None
          | Some n \<Rightarrow> map_of (inputs n) ic))"

subsection \<open>addConnection\<close>

text \<open>The test the code uses to find an entry: \<open>item.node == i && item.output == p\<close>
  (\<open>item.input\<close> in an inputs list); waypoints play no part.\<close>

definition same_conn :: "string \<Rightarrow> string \<Rightarrow> conn \<Rightarrow> bool" where
  "same_conn i p item = (node item = i \<and> port item = p)"

text \<open>
  \<open>updateConnectionNodes\<close> recomputes the \<open>d\<close> attribute of the paths from the layout of
  the page; it reads and writes no field of the model and is left out.
\<close>

definition connection_classes :: "string \<Rightarrow> string \<Rightarrow> string \<Rightarrow> string \<Rightarrow> string list" where
  "connection_classes id_output id_input output_class input_class =
     classList_add (classList_add (classList_add (classList_add (classList_add []
       ''connection'') (''node_in_node-'' @ id_input)) (''node_out_node-'' @ id_output))
       output_class) input_class"

definition addConnection ::
  "string \<Rightarrow> string \<Rightarrow> string \<Rightarrow> string \<Rightarrow> editor \<Rightarrow> (error + unit) \<times> editor" where
  "addConnection id_output id_input output_class input_class s =
     (let nodeOneModule = getModuleFromNodeId s id_output;
          nodeTwoModule = getModuleFromNodeId s id_input
      in if nodeOneModule = nodeTwoModule then
           (case getNodeFromId s id_output of
              Inl e \<Rightarrow> (Inl e, s)
            | Inr dataNode \<Rightarrow>
                (case (nodeOneModule, map_of (outputs dataNode) output_class) of
                   (Some m, Some cs) \<Rightarrow>
                     if list_ex (same_conn id_input input_class) cs
                     then (Inr (), s)
                     else
                       (let s1 = map_output m id_output output_class
                                   (\<lambda>cs. cs @ [\<lparr>node = id_input, port = input_class, points = None\<rparr>]) s
                        in case input_conns (drawflow s1) m id_input input_class of
                             None \<Rightarrow> (Inl TypeError, s1)
                           | Some _ \<Rightarrow>
                               (let s2 = map_input m id_input input_class
                                           (\<lambda>cs. cs @ [\<lparr>node = id_output, port = output_class, points = None\<rparr>]) s1;
                                    s3 = (if module s2 = m
                                          then s2\<lparr>dom_connections := dom_connections s2 @
                                                 [(next_el s2, connection_classes id_output id_input output_class input_class)],
                                               next_el := next_el s2 + 1\<rparr>
                                          else s2)
                                in (Inr (), dispatch (ConnectionCreated id_output id_input output_class input_class) s3)))
                 | _ \<Rightarrow> (Inl TypeError, s)))
         else (Inr (), s))"

subsection \<open>Construction: the constructor and addNode\<close>

definition new_Drawflow :: editor where
  "new_Drawflow =
     \<lparr>drawflow = [(''Home'', [])], module = ''Home'', nodeId = 1, useuuid = False,
      reroute = False, dom_nodes = [], dom_connections = [], next_el = 0,
      connection_selected = None,
      events = [], zoom = 1, zoom_max = 16 / 10, zoom_min = 5 / 10, zoom_value = 1 / 10,
      zoom_last_value = 1, canvas_x = 0, canvas_y = 0\<rparr>"

text \<open>Decimal notation of a number, as string concatenation \<open>"input_" + n\<close> produces it.\<close>

function string_of_nat :: "nat \<Rightarrow> string" where
  "string_of_nat n =
     (if n < 10 then [char_of (48 + n)]
      else string_of_nat (n div 10) @ [char_of (48 + n mod 10)])"
  by pat_completeness auto
termination
  by (relation "measure (\<lambda>n. n)") auto

text \<open>The keys \<open>input_1 .. input_n\<close> (or \<open>output_1 ..\<close>) with empty connection lists, and
  the class lists of the port elements created with them.\<close>

definition new_ports :: "string \<Rightarrow> nat \<Rightarrow> (string \<times> conn list) list" where
  "new_ports prefix n = map (\<lambda>x. (prefix @ ''_'' @ string_of_nat (x + 1), [])) [0..<n]"

definition new_port_els :: "string \<Rightarrow> nat \<Rightarrow> string list list" where
  "new_port_els prefix n =
     map (\<lambda>x. classList_add (classList_add [] prefix) (prefix @ ''_'' @ string_of_nat (x + 1))) [0..<n]"

text \<open>
  \<open>addNode\<close>.  Argument \<open>uuid\<close> is the value \<open>getUuid()\<close> returns when \<open>useuuid\<close> is
  set.  The rendering of the content (\<open>html\<close>, registered templates, the binding of
  \<open>df-*\<close> attributes) is outside the model, except that \<open>Object.entries(data)\<close> throws on
  \<open>null\<close>.  The box is appended to the page before the record is written to the store.
\<close>

definition addNode ::
  "string \<Rightarrow> nat \<Rightarrow> nat \<Rightarrow> rat \<Rightarrow> rat \<Rightarrow> string \<Rightarrow> json \<Rightarrow> string \<Rightarrow> string \<Rightarrow> editor
     \<Rightarrow> (error + string) \<times> editor" where
  "addNode nm num_in num_out ele_pos_x ele_pos_y classoverride dat htm uuid s =
     (let newNodeId = (if useuuid s then uuid else string_of_nat (nodeId s)) in
      if dat = JNull then (Inl TypeError, s)
      else
        (let s1 = s\<lparr>dom_nodes := dom_nodes s @
                       [\<lparr>el_id = ''node-'' @ newNodeId,
                         el_inputs = new_port_els ''input'' num_in,
                         el_outputs = new_port_els ''output'' num_out\<rparr>]\<rparr>;
             json = \<lparr>node_id = newNodeId, name = nm, data = dat, node_class = classoverride, html = htm,
                     typenode = False, inputs = new_ports ''input'' num_in,
                     outputs = new_ports ''output'' num_out, pos_x = ele_pos_x, pos_y = ele_pos_y\<rparr>
         in case map_of (drawflow s1) (module s1) of
              None \<Rightarrow> (Inl TypeError, s1)
            | Some _ \<Rightarrow>
                (let s2 = s1\<lparr>drawflow := AList.map_entry (module s1) (AList.update newNodeId json) (drawflow s1)\<rparr>;
                     s3 = dispatch (NodeCreated newNodeId) s2;
                     s4 = (if useuuid s3 then s3 else s3\<lparr>nodeId := nodeId s3 + 1\<rparr>)
                 in (Inr newNodeId, s4))))"

subsection \<open>Numbers in strings\<close>

definition is_digit :: "char \<Rightarrow> bool" where
  "is_digit c = (48 \<le> (of_char c :: nat) \<and> (of_char c :: nat) \<le> 57)"

definition is_space :: "char \<Rightarrow> bool" where
  "is_space c = ((of_char c :: nat) \<in> {9, 10, 11, 12, 13, 32})"

definition nat_of_digits :: "string \<Rightarrow> nat" where
  "nat_of_digits ds = foldl (\<lambda>acc c. 10 * acc + ((of_char c :: nat) - 48)) 0 ds"

text \<open>
  \<open>parseInt(str)\<close> in base ten: leading white space is skipped, a sign is read, then the
  longest run of digits; no digit gives \<open>NaN\<close> (here \<open>None\<close>).  The hexadecimal prefix
  \<open>0x\<close> is not modelled: such a string reads as 0, its leading digit.
\<close>

definition parseInt :: "string \<Rightarrow> int option" where
  "parseInt str =
     (let t = dropWhile is_space str;
          neg = (t \<noteq> [] \<and> hd t = CHR ''-'');
          u = (if t \<noteq> [] \<and> (hd t = CHR ''-'' \<or> hd t = CHR ''+'') then tl t else t);
          ds = takeWhile is_digit u
      in if ds = [] then None
         else Some (if neg then - int (nat_of_digits ds) else int (nat_of_digits ds)))"

text \<open>
  The label \<open>prefix + (num - 1)\<close> where \<open>num\<close> is a string: the subtraction converts the
  string to a number.  The model is exact for plain decimal numerals, which every label the
  editor creates carries; any other text gives \<open>NaN\<close>.
\<close>

definition minus_one_label :: "string \<Rightarrow> string \<Rightarrow> string" where
  "minus_one_label prefix num =
     (if num \<noteq> [] \<and> list_all is_digit num
      then (if nat_of_digits num = 0 then prefix @ ''-1''
            else prefix @ string_of_nat (nat_of_digits num - 1))
      else prefix @ ''NaN'')"

text \<open>\<open>a < b\<close> on the results of \<open>parseInt\<close>: false as soon as one side is \<open>NaN\<close>.\<close>

definition num_less :: "int option \<Rightarrow> int option \<Rightarrow> bool" where
  "num_less a b = (case (a, b) of (Some x, Some y) \<Rightarrow> x < y | _ \<Rightarrow> False)"

subsection \<open>Loading a module into the page\<close>

text \<open>
  \<open>addNodeImport\<close> draws one node: for every entry of every input port an
  \<open>svg.connection\<close> (appended at once), then the box.  The output elements are numbered by
  position, the input elements carry the key.  \<open>Object.entries(dataNode.data)\<close> throws on
  \<open>null\<close>, after the connections were appended and before the box is.
\<close>

definition import_connections :: "dfnode \<Rightarrow> string list list" where
  "import_connections dataNode =
     concat (map (\<lambda>(input_item, cs).
               map (\<lambda>c. connection_classes (node c) (node_id dataNode) (port c) input_item) cs)
             (inputs dataNode))"

definition addNodeImport :: "dfnode \<Rightarrow> editor \<Rightarrow> (error + unit) \<times> editor" where
  "addNodeImport dataNode s =
     (let news = import_connections dataNode;
          s1 = s\<lparr>dom_connections := dom_connections s @ zip [next_el s ..< next_el s + length news] news,
                 next_el := next_el s + length news\<rparr> in
      if data dataNode = JNull then (Inl TypeError, s1)
      else (Inr (), s1\<lparr>dom_nodes := dom_nodes s1 @
              [\<lparr>el_id = ''node-'' @ node_id dataNode,
                el_inputs = map (\<lambda>(input_item, _). classList_add (classList_add [] ''input'') input_item)
                              (inputs dataNode),
                el_outputs = new_port_els ''output'' (length (outputs dataNode))\<rparr>]\<rparr>))"

text \<open>
  \<open>addRerouteImport\<close> draws the waypoints of the outgoing connections of a node into
  their \<open>svg.connection\<close>; a connection with waypoints and no such element makes
  \<open>ele.appendChild\<close> throw.  Waypoints are not part of the modelled page, so only the
  failure is modelled.
\<close>

definition addRerouteImport :: "dfnode \<Rightarrow> editor \<Rightarrow> (error + unit) \<times> editor" where
  "addRerouteImport dataNode s =
     (if list_all (\<lambda>(output_item, cs).
           list_all (\<lambda>c. (case points c of
                             None \<Rightarrow> True
                           | Some [] \<Rightarrow> True
                           | Some _ \<Rightarrow> list_ex (\<lambda>el. has_classes [''connection'', ''node_in_node-'' @ node c,
                                          ''node_out_node-'' @ node_id dataNode, output_item, port c] (snd el))
                                        (dom_connections s))) cs)
         (outputs dataNode)
      then (Inr (), s) else (Inl TypeError, s))"

text \<open>A loop that stops at the first exception, keeping the state reached.\<close>

fun for_each :: "('a \<Rightarrow> editor \<Rightarrow> (error + unit) \<times> editor) \<Rightarrow> 'a list \<Rightarrow> editor \<Rightarrow> (error + unit) \<times> editor" where
  "for_each f [] s = (Inr (), s)"
| "for_each f (x # xs) s =
     (case f x s of
        (Inl e, s') \<Rightarrow> (Inl e, s')
      | (Inr _, s') \<Rightarrow> for_each f xs s')"

definition next_nodeId :: "store \<Rightarrow> nat" where
  "next_nodeId editor =
     nat (fold (\<lambda>(moduleName, dat) number.
                  fold (\<lambda>(i, _) number.
                          (case parseInt i of
                             Some k \<Rightarrow> if k \<ge> number then k + 1 else number
                           | None \<Rightarrow> number)) dat number)
               editor 1)"

definition load :: "editor \<Rightarrow> (error + unit) \<times> editor" where
  "load s =
     (case map_of (drawflow s) (module s) of
        None \<Rightarrow> (Inl TypeError, s)
      | Some dat \<Rightarrow>
          (case for_each addNodeImport (map snd dat) s of
             (Inl e, s1) \<Rightarrow> (Inl e, s1)
           | (Inr _, s1) \<Rightarrow>
               (case (if reroute s1 then for_each addRerouteImport (map snd dat) s1 else (Inr (), s1)) of
                  (Inl e, s2) \<Rightarrow> (Inl e, s2)
                | (Inr _, s2) \<Rightarrow> (Inr (), s2\<lparr>nodeId := next_nodeId (drawflow s2)\<rparr>))))"

subsection \<open>clear, export and import\<close>

definition clear :: "editor \<Rightarrow> editor" where
  "clear s = s\<lparr>dom_nodes := [], dom_connections := [], drawflow := [(''Home'', [])]\<rparr>"

text \<open>
  \<open>export\<close> returns \<open>JSON.parse(JSON.stringify(this.drawflow))\<close> and \<open>import\<close> stores
  such a clone of its argument.  On the values of this model the clone of a store is the
  store; that the clone is an equal tree in fresh objects is proved on the heap model below.
\<close>

definition export :: "editor \<Rightarrow> store \<times> editor" where
  "export s = (drawflow s, dispatch Export s)"

definition import :: "store \<Rightarrow> bool \<Rightarrow> editor \<Rightarrow> (error + unit) \<times> editor" where
  "import dat notifi s =
     (let s1 = clear s;
          s2 = s1\<lparr>drawflow := dat\<rparr>
      in case load s2 of
           (Inl e, s3) \<Rightarrow> (Inl e, s3)
         | (Inr _, s3) \<Rightarrow> (Inr (), if notifi then dispatch Import s3 else s3))"

subsection \<open>Modules\<close>

definition addModule :: "string \<Rightarrow> editor \<Rightarrow> (error + unit) \<times> editor" where
  "addModule nm s =
     (case map_of (drawflow s) nm of
        Some _ \<Rightarrow> (Inl (Error (''Module '' @ [CHR 0x27] @ nm @ [CHR 0x27] @ '' already exists.'')), s)
      | None \<Rightarrow> (Inr (), dispatch (ModuleCreated nm) (s\<lparr>drawflow := AList.update nm [] (drawflow s)\<rparr>)))"

definition changeModule :: "string \<Rightarrow> editor \<Rightarrow> (error + unit) \<times> editor" where
  "changeModule nm s =
     (case map_of (drawflow s) nm of
        None \<Rightarrow> (Inl (Error (''Module '' @ [CHR 0x27] @ nm @ [CHR 0x27] @ '' does not exist.'')), s)
      | Some _ \<Rightarrow>
          (let s1 = dispatch (ModuleChanged nm) s;
               s2 = s1\<lparr>module := nm, dom_nodes := [], dom_connections := [],
                       canvas_x := 0, canvas_y := 0, zoom := 1, zoom_last_value := 1\<rparr>
           in import (drawflow s2) False s2))"

definition removeModule :: "string \<Rightarrow> editor \<Rightarrow> (error + unit) \<times> editor" where
  "removeModule nm s =
     (case map_of (drawflow s) nm of
        None \<Rightarrow> (Inl (Error (''Module '' @ [CHR 0x27] @ nm @ [CHR 0x27] @ '' does not exist.'')), s)
      | Some _ \<Rightarrow>
          (case (if module s = nm then changeModule ''Home'' s else (Inr (), s)) of
             (Inl e, s1) \<Rightarrow> (Inl e, s1)
           | (Inr _, s1) \<Rightarrow>
               (Inr (), dispatch (ModuleRemoved nm) (s1\<lparr>drawflow := AList.delete nm (drawflow s1)\<rparr>))))"

subsection \<open>Zoom\<close>

definition zoom_refresh :: "editor \<Rightarrow> editor" where
  "zoom_refresh s =
     (let s1 = dispatch (Zoom (zoom s)) s;
          s2 = s1\<lparr>canvas_x := (canvas_x s1 / zoom_last_value s1) * zoom s1\<rparr>;
          s3 = s2\<lparr>canvas_y := (canvas_y s2 / zoom_last_value s2) * zoom s2\<rparr>
      in s3\<lparr>zoom_last_value := zoom s3\<rparr>)"

definition zoom_in :: "editor \<Rightarrow> editor" where
  "zoom_in s = (if zoom s < zoom_max s then zoom_refresh (s\<lparr>zoom := zoom s + zoom_value s\<rparr>) else s)"

definition zoom_out :: "editor \<Rightarrow> editor" where
  "zoom_out s = (if zoom s > zoom_min s then zoom_refresh (s\<lparr>zoom := zoom s - zoom_value s\<rparr>) else s)"

subsection \<open>Removing connections\<close>

definition remove_found :: "string \<Rightarrow> string \<Rightarrow> conn list \<Rightarrow> conn list" where
  "remove_found i p cs = splice1 (findIndex (same_conn i p) cs) cs"

definition removeSingleConnection ::
  "string \<Rightarrow> string \<Rightarrow> string \<Rightarrow> string \<Rightarrow> editor \<Rightarrow> (error + bool) \<times> editor" where
  "removeSingleConnection id_output id_input output_class input_class s =
     (let nodeOneModule = getModuleFromNodeId s id_output;
          nodeTwoModule = getModuleFromNodeId s id_input
      in if nodeOneModule = nodeTwoModule then
           (case nodeOneModule of
              None \<Rightarrow> (Inl TypeError, s)
            | Some m \<Rightarrow>
                (case output_conns (drawflow s) m id_output output_class of
                   None \<Rightarrow> (Inl TypeError, s)
                 | Some cs \<Rightarrow>
                     if findIndex (same_conn id_input input_class) cs > -1 then
                       (let sel = [''connection'', ''node_in_node-'' @ id_input,
                                   ''node_out_node-'' @ id_output, output_class, input_class] in
                        if module s = m \<and> \<not> list_ex (\<lambda>el. has_classes sel (snd el)) (dom_connections s)
                        then (Inl TypeError, s)
                        else
                          (let s1 = (if module s = m
                                     then s\<lparr>dom_connections :=
                                            remove_first (\<lambda>el. has_classes sel (snd el)) (dom_connections s)\<rparr>
                                     else s);
                               s2 = map_output m id_output output_class (remove_found id_input input_class) s1
                           in case input_conns (drawflow s2) m id_input input_class of
                                None \<Rightarrow> (Inl TypeError, s2)
                              | Some _ \<Rightarrow>
                                  (let s3 = map_input m id_input input_class (remove_found id_output output_class) s2
                                   in (Inr True,
                                       dispatch (ConnectionRemoved id_output id_input output_class input_class) s3))))
                     else (Inr False, s)))
         else (Inr False, s))"

text \<open>
  One round of the two loops of \<open>removeConnectionNodeId\<close>, for one \<open>svg.connection\<close> of
  the page.  All reads go through \<open>this.module\<close>.  The loop over the outgoing connections
  splices the input side first, the loop over the incoming ones the output side first.
\<close>

definition splice_input_side :: "string list \<Rightarrow> editor \<Rightarrow> (error + unit) \<times> editor" where
  "splice_input_side listclass s =
     (case listclass of
        c0 # c1 # c2 # c3 # c4 # _ \<Rightarrow>
          (case input_conns (drawflow s) (module s) (drop 13 c1) c4 of
             None \<Rightarrow> (Inl TypeError, s)
           | Some _ \<Rightarrow> (Inr (), map_input (module s) (drop 13 c1) c4 (remove_found (drop 14 c2) c3) s))
      | _ \<Rightarrow> (Inl TypeError, s))"

definition splice_output_side :: "string list \<Rightarrow> editor \<Rightarrow> (error + unit) \<times> editor" where
  "splice_output_side listclass s =
     (case listclass of
        c0 # c1 # c2 # c3 # c4 # _ \<Rightarrow>
          (case output_conns (drawflow s) (module s) (drop 14 c2) c3 of
             None \<Rightarrow> (Inl TypeError, s)
           | Some _ \<Rightarrow> (Inr (), map_output (module s) (drop 14 c2) c3 (remove_found (drop 13 c1) c4) s))
      | _ \<Rightarrow> (Inl TypeError, s))"

definition remove_element :: "nat \<times> string list \<Rightarrow> editor \<Rightarrow> (error + unit) \<times> editor" where
  "remove_element el s =
     (case snd el of
        c0 # c1 # c2 # c3 # c4 # _ \<Rightarrow>
          (Inr (), dispatch (ConnectionRemoved (drop 14 c2) (drop 13 c1) c3 c4)
                     (s\<lparr>dom_connections := filter (\<lambda>e. fst e \<noteq> fst el) (dom_connections s)\<rparr>))
      | _ \<Rightarrow> (Inl TypeError, s))"

definition remove_outgoing :: "nat \<times> string list \<Rightarrow> editor \<Rightarrow> (error + unit) \<times> editor" where
  "remove_outgoing el s =
     (case splice_input_side (snd el) s of
        (Inl e, s1) \<Rightarrow> (Inl e, s1)
      | (Inr _, s1) \<Rightarrow>
          (case splice_output_side (snd el) s1 of
             (Inl e, s2) \<Rightarrow> (Inl e, s2)
           | (Inr _, s2) \<Rightarrow> remove_element el s2))"

definition remove_incoming :: "nat \<times> string list \<Rightarrow> editor \<Rightarrow> (error + unit) \<times> editor" where
  "remove_incoming el s =
     (case splice_output_side (snd el) s of
        (Inl e, s1) \<Rightarrow> (Inl e, s1)
      | (Inr _, s1) \<Rightarrow>
          (case splice_input_side (snd el) s1 of
             (Inl e, s2) \<Rightarrow> (Inl e, s2)
           | (Inr _, s2) \<Rightarrow> remove_element el s2))"

text \<open>\<open>removeConnectionNodeId(id)\<close>; \<open>id\<close> is the id of the box, \<open>node-ID\<close>.  Both loops
  run from the last element found to the first.\<close>

definition removeConnectionNodeId :: "string \<Rightarrow> editor \<Rightarrow> (error + unit) \<times> editor" where
  "removeConnectionNodeId i s =
     (let elemsOut = filter (\<lambda>el. ''node_out_'' @ i \<in> set (snd el)) (dom_connections s) in
      case for_each remove_outgoing (rev elemsOut) s of
        (Inl e, s1) \<Rightarrow> (Inl e, s1)
      | (Inr _, s1) \<Rightarrow>
          (let elemsIn = filter (\<lambda>el. ''node_in_'' @ i \<in> set (snd el)) (dom_connections s1)
           in for_each remove_incoming (rev elemsIn) s1))"

definition removeNodeId :: "string \<Rightarrow> editor \<Rightarrow> (error + unit) \<times> editor" where
  "removeNodeId i s =
     (case removeConnectionNodeId i s of
        (Inl e, s1) \<Rightarrow> (Inl e, s1)
      | (Inr _, s1) \<Rightarrow>
          (let moduleName = getModuleFromNodeId s1 (drop 5 i) in
           if Some (module s1) = moduleName \<and> \<not> list_ex (\<lambda>el. el_id el = i) (dom_nodes s1)
           then (Inl TypeError, s1)
           else
             (let s2 = (if Some (module s1) = moduleName
                        then s1\<lparr>dom_nodes := remove_first (\<lambda>el. el_id el = i) (dom_nodes s1)\<rparr>
                        else s1)
              in case moduleName of
                   None \<Rightarrow> (Inl TypeError, s2)
                 | Some m \<Rightarrow>
                     (Inr (), dispatch (NodeRemoved (drop 5 i))
                                (s2\<lparr>drawflow := AList.map_entry m (AList.delete (drop 5 i)) (drawflow s2)\<rparr>)))))"

text \<open>\<open>removeConnection()\<close> removes the selected connection: its element leaves the page
  (if it is still there), and the store of the active module is spliced by its classes.\<close>

definition removeConnection :: "editor \<Rightarrow> (error + unit) \<times> editor" where
  "removeConnection s =
     (case connection_selected s of
        None \<Rightarrow> (Inr (), s)
      | Some el \<Rightarrow>
          (let s1 = s\<lparr>dom_connections := filter (\<lambda>e. fst e \<noteq> fst el) (dom_connections s)\<rparr> in
           case splice_output_side (snd el) s1 of
             (Inl e, s2) \<Rightarrow> (Inl e, s2)
           | (Inr _, s2) \<Rightarrow>
               (case splice_input_side (snd el) s2 of
                  (Inl e, s3) \<Rightarrow> (Inl e, s3)
                | (Inr _, s3) \<Rightarrow>
                    (case snd el of
                       c0 # c1 # c2 # c3 # c4 # _ \<Rightarrow>
                         (Inr (), (dispatch (ConnectionRemoved (drop 14 c2) (drop 13 c1) c3 c4) s3)
                                     \<lparr>connection_selected := None\<rparr>)
                     | _ \<Rightarrow> (Inl TypeError, s3)))))"

subsection \<open>Removing a port: removeNodeInput and removeNodeOutput\<close>

text \<open>\<open>classList.remove\<close>, and \<open>new Set(...)\<close> followed by \<open>Array.from\<close>: the first
  occurrence of every entry, in order.\<close>

definition classList_remove :: "string list \<Rightarrow> string \<Rightarrow> string list" where
  "classList_remove cs c = removeAll c cs"

definition uniq :: "'a list \<Rightarrow> 'a list" where
  "uniq xs = fold (\<lambda>x acc. if x \<in> set acc then acc else acc @ [x]) xs []"

text \<open>
  \<open>container.querySelector('#' + i + ' .inputs .input.' + c).remove()\<close> on the boxes of
  the page: the first port element with the classes goes; \<open>None\<close> when there is none
  (\<open>querySelector\<close> gives \<open>null\<close> and \<open>.remove()\<close> throws).
\<close>

fun remove_input_el :: "string \<Rightarrow> (string list \<Rightarrow> bool) \<Rightarrow> node_el list \<Rightarrow> node_el list option" where
  "remove_input_el i P [] = None"
| "remove_input_el i P (e # es) =
     (if el_id e = i \<and> list_ex P (el_inputs e)
      then Some (e\<lparr>el_inputs := remove_first P (el_inputs e)\<rparr> # es)
      else map_option ((#) e) (remove_input_el i P es))"

fun remove_output_el :: "string \<Rightarrow> (string list \<Rightarrow> bool) \<Rightarrow> node_el list \<Rightarrow> node_el list option" where
  "remove_output_el i P [] = None"
| "remove_output_el i P (e # es) =
     (if el_id e = i \<and> list_ex P (el_outputs e)
      then Some (e\<lparr>el_outputs := remove_first P (el_outputs e)\<rparr> # es)
      else map_option ((#) e) (remove_output_el i P es))"

text \<open>
  The loop over the port elements of the box that renames the classes above the removed
  number: \<open>id_class = item.classList[1].slice(k)\<close>, and if
  \<open>parseInt(removed) < parseInt(id_class)\<close> the class \<open>prefix + id_class\<close> is replaced by
  \<open>prefix + (id_class - 1)\<close>.  An element with fewer than two classes makes \<open>.slice\<close>
  throw; the elements before it are already renamed.
\<close>

definition renumber_port_el :: "string \<Rightarrow> nat \<Rightarrow> string \<Rightarrow> string list \<Rightarrow> string list option" where
  "renumber_port_el prefix k removed cl =
     (case cl of
        c0 # c1 # _ \<Rightarrow>
          (let id_class = drop k c1 in
           if num_less (parseInt removed) (parseInt id_class)
           then Some (classList_add (classList_remove cl (prefix @ id_class)) (minus_one_label prefix id_class))
           else Some cl)
      | _ \<Rightarrow> None)"

fun map_until :: "('a \<Rightarrow> 'a option) \<Rightarrow> 'a list \<Rightarrow> bool \<times> 'a list" where
  "map_until f [] = (True, [])"
| "map_until f (x # xs) =
     (case f x of
        None \<Rightarrow> (False, x # xs)
      | Some y \<Rightarrow> (let (ok, ys) = map_until f xs in (ok, y # ys)))"

definition renumber_input_els :: "string \<Rightarrow> string \<Rightarrow> node_el list \<Rightarrow> bool \<times> node_el list" where
  "renumber_input_els i removed els =
     map_until (\<lambda>e. if el_id e = i
                     then (case map_until (\<lambda>cl. if ''input'' \<in> set cl
                                                 then renumber_port_el ''input_'' 6 removed cl
                                                 else Some cl) (el_inputs e) of
                             (True, cls) \<Rightarrow> Some (e\<lparr>el_inputs := cls\<rparr>)
                           | (False, cls) \<Rightarrow> None)
                     else Some e) els"

definition renumber_output_els :: "string \<Rightarrow> string \<Rightarrow> node_el list \<Rightarrow> bool \<times> node_el list" where
  "renumber_output_els i removed els =
     map_until (\<lambda>e. if el_id e = i
                     then (case map_until (\<lambda>cl. if ''output'' \<in> set cl
                                                 then renumber_port_el ''output_'' 7 removed cl
                                                 else Some cl) (el_outputs e) of
                             (True, cls) \<Rightarrow> Some (e\<lparr>el_outputs := cls\<rparr>)
                           | (False, cls) \<Rightarrow> None)
                     else Some e) els"

text \<open>The first \<open>svg.connection\<close> that a selector matches, and the change of the class
  list of an element (which the selection sees, being the same object).\<close>

definition querySelector :: "string list \<Rightarrow> editor \<Rightarrow> (nat \<times> string list) option" where
  "querySelector sel s = find (\<lambda>el. has_classes sel (snd el)) (dom_connections s)"

definition set_classes :: "nat \<Rightarrow> string list \<Rightarrow> editor \<Rightarrow> editor" where
  "set_classes k cl s =
     s\<lparr>dom_connections := map (\<lambda>el. if fst el = k then (k, cl) else el) (dom_connections s),
       connection_selected := (case connection_selected s of
                                 None \<Rightarrow> None
                               | Some el \<Rightarrow> if fst el = k then Some (k, cl) else Some el)\<rparr>"

text \<open>
  The last loop of \<open>removeNodeInput\<close>, for one entry \<open>itemz\<close> (at \<open>index\<close>) of the output
  port \<open>itemx.input\<close> of the peer \<open>itemx.node\<close>: an entry that names the node and a port
  above the removed one is renamed, on the page (when the module is shown) and in the
  store.
\<close>

definition rename_peer_output ::
  "string \<Rightarrow> string \<Rightarrow> string \<Rightarrow> conn \<Rightarrow> nat \<times> conn \<Rightarrow> editor \<Rightarrow> (error + unit) \<times> editor" where
  "rename_peer_output moduleName i input_class_id itemx iz s =
     (let index = fst iz; itemz = snd iz; output_id = drop 6 (port itemz) in
      if node itemz = i \<and> num_less (parseInt input_class_id) (parseInt output_id) then
        (case (if module s = moduleName
               then (case querySelector [''connection'', ''node_in_node-'' @ i, ''node_out_node-'' @ node itemx,
                                         port itemx, ''input_'' @ output_id] s of
                       None \<Rightarrow> None
                     | Some el \<Rightarrow>
                         Some (set_classes (fst el)
                                 (classList_add (classList_remove (snd el) (''input_'' @ output_id))
                                    (minus_one_label ''input_'' output_id)) s))
               else Some s) of
           None \<Rightarrow> (Inl TypeError, s)
         | Some s1 \<Rightarrow>
             (Inr (), map_output moduleName (node itemx) (port itemx)
                        (\<lambda>cs. cs[index := itemz\<lparr>port := minus_one_label ''input_'' output_id\<rparr>]) s1))
      else (Inr (), s))"

definition rename_peer_outputs :: "string \<Rightarrow> string \<Rightarrow> string \<Rightarrow> conn \<Rightarrow> editor \<Rightarrow> (error + unit) \<times> editor" where
  "rename_peer_outputs moduleName i input_class_id itemx s =
     (case output_conns (drawflow s) moduleName (node itemx) (port itemx) of
        None \<Rightarrow> (Inl TypeError, s)
      | Some cs \<Rightarrow> for_each (rename_peer_output moduleName i input_class_id itemx) (enumerate 0 cs) s)"

text \<open>\<open>removeSingleConnection\<close> as a statement: the result is dropped.\<close>

definition removeSingleConnection_stmt ::
  "string \<Rightarrow> string \<Rightarrow> string \<Rightarrow> string \<Rightarrow> editor \<Rightarrow> (error + unit) \<times> editor" where
  "removeSingleConnection_stmt id_output id_input output_class input_class s =
     (case removeSingleConnection id_output id_input output_class input_class s of
        (Inl e, s') \<Rightarrow> (Inl e, s')
      | (Inr _, s') \<Rightarrow> (Inr (), s'))"

text \<open>The ports that are left, numbered again from 1 in their order.\<close>

definition renumber_ports :: "string \<Rightarrow> string \<Rightarrow> (string \<times> conn list) list \<Rightarrow> (string \<times> conn list) list" where
  "renumber_ports prefix removed ports =
     map (\<lambda>(index, item). (prefix @ string_of_nat (index + 1), item))
         (enumerate 0 (map snd (AList.delete removed ports)))"

definition removeNodeInput :: "string \<Rightarrow> string \<Rightarrow> editor \<Rightarrow> (error + unit) \<times> editor" where
  "removeNodeInput i input_class s =
     (let moduleName = getModuleFromNodeId s i in
      case (getNodeFromId s i, moduleName) of
        (Inr infoNode, Some m) \<Rightarrow>
          (case (if module s = m
                 then map_option (\<lambda>els. s\<lparr>dom_nodes := els\<rparr>)
                        (remove_input_el (''node-'' @ i) (has_classes [''input'', input_class]) (dom_nodes s))
                 else Some s) of
             None \<Rightarrow> (Inl TypeError, s)
           | Some s1 \<Rightarrow>
               (case map_of (inputs infoNode) input_class of
                  None \<Rightarrow> (Inl TypeError, s1)
                | Some removeInputs \<Rightarrow>
                    (case for_each (\<lambda>c. removeSingleConnection_stmt (node c) i (port c) input_class)
                            removeInputs s1 of
                       (Inl e, s2) \<Rightarrow> (Inl e, s2)
                     | (Inr _, s2) \<Rightarrow>
                         (case map_of (drawflow s2) m of
                            None \<Rightarrow> (Inl TypeError, s2)
                          | Some dat \<Rightarrow>
                              (case map_of dat i of
                                 None \<Rightarrow> (Inl TypeError, s2)
                               | Some n \<Rightarrow>
                                   (let connections = map snd (AList.delete input_class (inputs n));
                                        s3 = s2\<lparr>drawflow := map_node m i
                                                 (\<lambda>n. n\<lparr>inputs := renumber_ports ''input_'' input_class (inputs n)\<rparr>)
                                                 (drawflow s2)\<rparr>;
                                        input_class_id = drop 6 input_class;
                                        nodeUpdates = uniq (concat connections);
                                        (ok, els) = (if module s3 = m
                                                     then renumber_input_els (''node-'' @ i) input_class_id (dom_nodes s3)
                                                     else (True, dom_nodes s3));
                                        s4 = s3\<lparr>dom_nodes := els\<rparr>
                                    in if ok then for_each (rename_peer_outputs m i input_class_id) nodeUpdates s4
                                       else (Inl TypeError, s4)))))))
      | (Inl e, _) \<Rightarrow> (Inl e, s)
      | (_, None) \<Rightarrow> (Inl TypeError, s))"

text \<open>The same for an output port; the entries of the peers are in their input ports,
  and the element of a connection keeps its input class last.\<close>

definition rename_peer_input ::
  "string \<Rightarrow> string \<Rightarrow> string \<Rightarrow> conn \<Rightarrow> nat \<times> conn \<Rightarrow> editor \<Rightarrow> (error + unit) \<times> editor" where
  "rename_peer_input moduleName i output_class_id itemx iz s =
     (let index = fst iz; itemz = snd iz; input_id = drop 7 (port itemz) in
      if node itemz = i \<and> num_less (parseInt output_class_id) (parseInt input_id) then
        (case (if module s = moduleName
               then (case querySelector [''connection'', ''node_in_node-'' @ node itemx, ''node_out_node-'' @ i,
                                         ''output_'' @ input_id, port itemx] s of
                       None \<Rightarrow> None
                     | Some el \<Rightarrow>
                         Some (set_classes (fst el)
                                 (classList_add
                                    (classList_add
                                       (classList_remove (classList_remove (snd el) (''output_'' @ input_id)) (port itemx))
                                       (minus_one_label ''output_'' input_id))
                                    (port itemx)) s))
               else Some s) of
           None \<Rightarrow> (Inl TypeError, s)
         | Some s1 \<Rightarrow>
             (Inr (), map_input moduleName (node itemx) (port itemx)
                        (\<lambda>cs. cs[index := itemz\<lparr>port := minus_one_label ''output_'' input_id\<rparr>]) s1))
      else (Inr (), s))"

definition rename_peer_inputs :: "string \<Rightarrow> string \<Rightarrow> string \<Rightarrow> conn \<Rightarrow> editor \<Rightarrow> (error + unit) \<times> editor" where
  "rename_peer_inputs moduleName i output_class_id itemx s =
     (case input_conns (drawflow s) moduleName (node itemx) (port itemx) of
        None \<Rightarrow> (Inl TypeError, s)
      | Some cs \<Rightarrow> for_each (rename_peer_input moduleName i output_class_id itemx) (enumerate 0 cs) s)"

definition removeNodeOutput :: "string \<Rightarrow> string \<Rightarrow> editor \<Rightarrow> (error + unit) \<times> editor" where
  "removeNodeOutput i output_class s =
     (let moduleName = getModuleFromNodeId s i in
      case (getNodeFromId s i, moduleName) of
        (Inr infoNode, Some m) \<Rightarrow>
          (case (if module s = m
                 then map_option (\<lambda>els. s\<lparr>dom_nodes := els\<rparr>)
                        (remove_output_el (''node-'' @ i) (has_classes [''output'', output_class]) (dom_nodes s))
                 else Some s) of
             None \<Rightarrow> (Inl TypeError, s)
           | Some s1 \<Rightarrow>
               (case map_of (outputs infoNode) output_class of
                  None \<Rightarrow> (Inl TypeError, s1)
                | Some removeOutputs \<Rightarrow>
                    (case for_each (\<lambda>c. removeSingleConnection_stmt i (node c) output_class (port c))
                            removeOutputs s1 of
                       (Inl e, s2) \<Rightarrow> (Inl e, s2)
                     | (Inr _, s2) \<Rightarrow>
                         (case map_of (drawflow s2) m of
                            None \<Rightarrow> (Inl TypeError, s2)
                          | Some dat \<Rightarrow>
                              (case map_of dat i of
                                 None \<Rightarrow> (Inl TypeError, s2)
                               | Some n \<Rightarrow>
                                   (let connections = map snd (AList.delete output_class (outputs n));
                                        s3 = s2\<lparr>drawflow := map_node m i
                                                 (\<lambda>n. n\<lparr>outputs := renumber_ports ''output_'' output_class (outputs n)\<rparr>)
                                                 (drawflow s2)\<rparr>;
                                        output_class_id = drop 7 output_class;
                                        nodeUpdates = uniq (map (\<lambda>c. c\<lparr>points := None\<rparr>) (concat connections));
                                        (ok, els) = (if module s3 = m
                                                     then renumber_output_els (''node-'' @ i) output_class_id (dom_nodes s3)
                                                     else (True, dom_nodes s3));
                                        s4 = s3\<lparr>dom_nodes := els\<rparr>
                                    in if ok then for_each (rename_peer_inputs m i output_class_id) nodeUpdates s4
                                       else (Inl TypeError, s4)))))))
      | (Inl e, _) \<Rightarrow> (Inl e, s)
      | (_, None) \<Rightarrow> (Inl TypeError, s))"


section \<open>Deep copies: objects in a heap\<close>

text \<open>
  \<open>getNodeFromId\<close>, \<open>export\<close> and \<open>import\<close> copy through
  \<open>JSON.parse(JSON.stringify(x))\<close>.  What a copy shares with its original cannot be said
  on immutable values, so here the objects live in a heap: a list of objects, the address
  of an object being its index, and a new object being appended.  A value is a primitive
  or a reference to an object; \<open>undefined\<close> is a value.
\<close>

datatype jsval = VUndefined | VNull | VBool bool | VNum rat | VStr string | VRef nat

datatype jsobj = Obj "(string \<times> jsval) list" | Arr "jsval list"

type_synonym heap = "jsobj list"

text \<open>
  \<open>JSON.stringify\<close>, to the JSON tree rather than to its text.  A property whose value is
  \<open>undefined\<close> is left out, an \<open>undefined\<close> array element is written \<open>null\<close>.  A cyclic
  object makes it throw: with \<open>n\<close> objects in the heap a path of more than \<open>n\<close> references
  repeats an object, so the descent is given \<open>n + 1\<close> steps and \<open>None\<close> stands for the
  TypeError.
\<close>

fun ser :: "nat \<Rightarrow> heap \<Rightarrow> jsval \<Rightarrow> json option" where
  "ser n h VUndefined = Some JNull"
| "ser n h VNull = Some JNull"
| "ser n h (VBool b) = Some (JBool b)"
| "ser n h (VNum x) = Some (JNum x)"
| "ser n h (VStr x) = Some (JStr x)"
| "ser 0 h (VRef a) = None"
| "ser (Suc n) h (VRef a) =
     (if a < length h then
        (case h ! a of
           Obj fs \<Rightarrow>
             map_option JObj
               (those (map (\<lambda>kv. map_option (Pair (fst kv)) (ser n h (snd kv)))
                           (filter (\<lambda>kv. snd kv \<noteq> VUndefined) fs)))
         | Arr xs \<Rightarrow> map_option JArr (those (map (ser n h) xs)))
      else None)"

definition JSON_stringify :: "heap \<Rightarrow> jsval \<Rightarrow> json option" where
  "JSON_stringify h v = ser (Suc (length h)) h v"

text \<open>\<open>JSON.parse\<close> of the text of a tree: every array and object of the tree is a new
  object of the heap, the parts before the whole.\<close>

fun JSON_parse :: "json \<Rightarrow> heap \<Rightarrow> jsval \<times> heap" where
  "JSON_parse JNull h = (VNull, h)"
| "JSON_parse (JBool b) h = (VBool b, h)"
| "JSON_parse (JNum x) h = (VNum x, h)"
| "JSON_parse (JStr x) h = (VStr x, h)"
| "JSON_parse (JArr js) h =
     (let (vs, h') = fold (\<lambda>j (vs, h). let (v, h1) = JSON_parse j h in (vs @ [v], h1)) js ([], h)
      in (VRef (length h'), h' @ [Arr vs]))"
| "JSON_parse (JObj fs) h =
     (let (kvs, h') = fold (\<lambda>kj (kvs, h). let (v, h1) = JSON_parse (snd kj) h in (kvs @ [(fst kj, v)], h1))
                           fs ([], h)
      in (VRef (length h'), h' @ [Obj kvs]))"

text \<open>Reading a property: \<open>None\<close> is the TypeError of a read on \<open>undefined\<close> or \<open>null\<close>
  (or on an address that holds no object); a missing property reads \<open>undefined\<close>.  Arrays
  and primitives have none of the properties the editor reads.\<close>

definition get_prop :: "heap \<Rightarrow> jsval \<Rightarrow> string \<Rightarrow> jsval option" where
  "get_prop h v k =
     (case v of
        VUndefined \<Rightarrow> None
      | VNull \<Rightarrow> None
      | VRef a \<Rightarrow>
          (if a < length h then
             (case h ! a of
                Obj fs \<Rightarrow> (case map_of fs k of None \<Rightarrow> Some VUndefined | Some x \<Rightarrow> Some x)
              | Arr xs \<Rightarrow> Some VUndefined)
           else None)
      | _ \<Rightarrow> Some VUndefined)"

text \<open>\<open>Object.keys(v)\<close>; it throws on \<open>undefined\<close> and \<open>null\<close>.\<close>

definition object_keys :: "heap \<Rightarrow> jsval \<Rightarrow> string list option" where
  "object_keys h v =
     (case v of
        VUndefined \<Rightarrow> None
      | VNull \<Rightarrow> None
      | VRef a \<Rightarrow>
          (if a < length h then
             (case h ! a of
                Obj fs \<Rightarrow> Some (map fst fs)
              | Arr xs \<Rightarrow> Some (map string_of_nat [0..<length xs]))
           else None)
      | _ \<Rightarrow> Some [])"

text \<open>The editor as far as the copies go: the heap, the value of \<open>this.drawflow\<close> and the
  name of the module shown.\<close>

record jseditor =
  heap :: heap
  this_drawflow :: jsval
  this_module :: string

text \<open>\<open>getModuleFromNodeId\<close> on the heap: \<open>editor = this.drawflow.drawflow\<close>, then the two
  loops over the keys.\<close>

definition module_keys :: "heap \<Rightarrow> jsval \<Rightarrow> string \<Rightarrow> string list option" where
  "module_keys h editor moduleName =
     (case get_prop h editor moduleName of
        None \<Rightarrow> None
      | Some md \<Rightarrow>
          (case get_prop h md ''data'' of
             None \<Rightarrow> None
           | Some dat \<Rightarrow> object_keys h dat))"

fun modules_loop :: "heap \<Rightarrow> jsval \<Rightarrow> string \<Rightarrow> string list \<Rightarrow> string option \<Rightarrow> error + string option" where
  "modules_loop h editor i [] nameModule = Inr nameModule"
| "modules_loop h editor i (moduleName # rest) nameModule =
     (case module_keys h editor moduleName of
        None \<Rightarrow> Inl TypeError
      | Some ks \<Rightarrow> modules_loop h editor i rest (if i \<in> set ks then Some moduleName else nameModule))"

definition getModuleFromNodeId_heap :: "jseditor \<Rightarrow> string \<Rightarrow> error + string option" where
  "getModuleFromNodeId_heap st i =
     (case get_prop (heap st) (this_drawflow st) ''drawflow'' of
        None \<Rightarrow> Inl TypeError
      | Some editor \<Rightarrow>
          (case object_keys (heap st) editor of
             None \<Rightarrow> Inl TypeError
           | Some ms \<Rightarrow> modules_loop (heap st) editor i ms None))"

text \<open>The value \<open>this.drawflow.drawflow[moduleName].data[id]\<close>; with \<open>moduleName\<close>
  undefined the key read is the text \<open>undefined\<close>.\<close>

definition node_value :: "jseditor \<Rightarrow> string option \<Rightarrow> string \<Rightarrow> jsval option" where
  "node_value st moduleName i =
     (case get_prop (heap st) (this_drawflow st) ''drawflow'' of
        None \<Rightarrow> None
      | Some editor \<Rightarrow>
          (case get_prop (heap st) editor (case moduleName of None \<Rightarrow> ''undefined'' | Some m \<Rightarrow> m) of
             None \<Rightarrow> None
           | Some md \<Rightarrow>
               (case get_prop (heap st) md ''data'' of
                  None \<Rightarrow> None
                | Some dat \<Rightarrow> get_prop (heap st) dat i)))"

text \<open>\<open>JSON.parse(JSON.stringify(v))\<close>: \<open>JSON.stringify(undefined)\<close> is \<open>undefined\<close>, which
  \<open>JSON.parse\<close> rejects with a SyntaxError.\<close>

definition json_clone :: "jsval \<Rightarrow> jseditor \<Rightarrow> (error + jsval) \<times> jseditor" where
  "json_clone v st =
     (if v = VUndefined then (Inl SyntaxError, st)
      else (case JSON_stringify (heap st) v of
              None \<Rightarrow> (Inl TypeError, st)
            | Some j \<Rightarrow> (let (r, h') = JSON_parse j (heap st) in (Inr r, st\<lparr>heap := h'\<rparr>))))"

definition getNodeFromId_heap :: "jseditor \<Rightarrow> string \<Rightarrow> (error + jsval) \<times> jseditor" where
  "getNodeFromId_heap st i =
     (case getModuleFromNodeId_heap st i of
        Inl e \<Rightarrow> (Inl e, st)
      | Inr moduleName \<Rightarrow>
          (case node_value st moduleName i of
             None \<Rightarrow> (Inl TypeError, st)
           | Some v \<Rightarrow> json_clone v st))"

text \<open>The caller writes into objects: \<open>set_object a ob\<close> replaces the object at an address
  (any assignment to a property or an element of it).\<close>

definition set_object :: "nat \<times> jsobj \<Rightarrow> heap \<Rightarrow> heap" where
  "set_object w h = h[fst w := snd w]"

text \<open>The objects a value leads to.\<close>

definition vals :: "jsobj \<Rightarrow> jsval list" where
  "vals ob = (case ob of Obj fs \<Rightarrow> map snd fs | Arr xs \<Rightarrow> xs)"

inductive reach :: "heap \<Rightarrow> jsval \<Rightarrow> nat \<Rightarrow> bool" where
  here: "a < length h \<Longrightarrow> reach h (VRef a) a"
| step: "a < length h \<Longrightarrow> w \<in> set (vals (h ! a)) \<Longrightarrow> reach h w b \<Longrightarrow> reach h (VRef a) b"





text \<open>A small store on the heap: module \<open>Home\<close> with node 1, whose payload is
  \<open>{k: "v"}\<close> and whose output_1 is connected to input_1 of a node 2.\<close>

definition heap_example :: jseditor where
  "heap_example =
     \<lparr>heap = [Obj [(''k'', VStr ''v'')],
              Obj [(''node'', VStr ''2''), (''output'', VStr ''input_1'')],
              Arr [VRef 1],
              Obj [(''connections'', VRef 2)],
              Obj [(''output_1'', VRef 3)],
              Obj [],
              Obj [(''id'', VNum 1), (''name'', VStr ''a''), (''data'', VRef 0),
                   (''inputs'', VRef 5), (''outputs'', VRef 4)],
              Obj [(''1'', VRef 6)],
              Obj [(''data'', VRef 7)],
              Obj [(''Home'', VRef 8)],
              Obj [(''drawflow'', VRef 9)]],
      this_drawflow = VRef 10,
      this_module = ''Home''\<rparr>"


section \<open>Properties of states and example states\<close>

text \<open>The id is a key of some module of the store.\<close>

definition has_node :: "store \<Rightarrow> string \<Rightarrow> bool" where
  "has_node d i = list_ex (\<lambda>(m, dat). i \<in> set (map fst dat)) d"


text \<open>Two nodes with one input and one output each, in the module that is shown.\<close>

definition two_nodes :: editor where
  "two_nodes =
     (let s1 = snd (addNode ''a'' 1 1 0 0 [] (JObj []) ''A'' [] new_Drawflow)
      in snd (addNode ''b'' 1 1 300 0 [] (JObj []) ''B'' [] s1))"

text \<open>The same two nodes created in a module \<open>Other\<close>, after which the editor shows
  \<open>Home\<close> again.\<close>

definition other_module_editor :: editor where
  "other_module_editor =
     (let s1 = snd (addModule ''Other'' new_Drawflow);
          s2 = snd (changeModule ''Other'' s1);
          s3 = snd (addNode ''a'' 1 1 0 0 [] (JObj []) ''A'' [] s2);
          s4 = snd (addNode ''b'' 1 1 300 0 [] (JObj []) ''B'' [] s3)
      in snd (changeModule ''Home'' s4))"

text \<open>\<open>Other\<close> is shown and \<open>Home\<close> has been removed.\<close>

definition home_removed_editor :: editor where
  "home_removed_editor =
     (let s1 = snd (addModule ''Other'' new_Drawflow);
          s2 = snd (changeModule ''Other'' s1)
      in snd (removeModule ''Home'' s2))"


section \<open>Auxiliary notions of the proofs\<close>

text \<open>\<open>getModuleFromNodeId\<close> only looks at the keys of the store.\<close>

definition skeleton :: "store \<Rightarrow> (string \<times> string list) list" where
  "skeleton d = map (\<lambda>(m, dat). (m, map fst dat)) d"

text \<open>For the parser: the fuel that serialises a value, a value made by the parser above
  address \<open>k\<close>, and a heap whose objects from \<open>k\<close> on refer only to earlier objects from
  \<open>k\<close> on.\<close>

definition rank :: "jsval \<Rightarrow> nat" where
  "rank v = (case v of VRef a \<Rightarrow> Suc a | _ \<Rightarrow> 0)"

definition made :: "nat \<Rightarrow> heap \<Rightarrow> jsval \<Rightarrow> json \<Rightarrow> bool" where
  "made k h v j \<longleftrightarrow>
     v \<noteq> VUndefined \<and> rank v \<le> length h \<and> (\<forall>a. v = VRef a \<longrightarrow> k \<le> a) \<and>
     (\<forall>n ext. rank v \<le> n \<longrightarrow> ser n (h @ ext) v = Some j)"

definition closed_from :: "nat \<Rightarrow> heap \<Rightarrow> bool" where
  "closed_from k h \<longleftrightarrow>
     (\<forall>b a. k \<le> b \<longrightarrow> b < length h \<longrightarrow> VRef a \<in> set (vals (h ! b)) \<longrightarrow> k \<le> a \<and> a < b)"

definition parts_ok :: "nat \<Rightarrow> heap \<Rightarrow> jsval list \<Rightarrow> json list \<Rightarrow> bool" where
  "parts_ok k h vs js \<longleftrightarrow> list_all2 (made k h) vs js"


section \<open>Facts about the store\<close>

lemma map_fst_map_entry: "map fst (AList.map_entry k f xs) = map fst xs"
  by (induction xs) auto

lemma inner_fold_keys:
  "fold (\<lambda>(k, _) nm. if k = i then Some m else nm) dat acc =
     (if i \<in> set (map fst dat) then Some m else acc)"
  by (induction dat arbitrary: acc) (auto split: prod.splits)

lemma module_fold_skeleton:
  "fold (\<lambda>(moduleName, dat) nameModule.
             fold (\<lambda>(k, _) nm. if k = i then Some moduleName else nm) dat nameModule) d acc
   = fold (\<lambda>(m, ks) acc. if i \<in> set ks then Some m else acc) (skeleton d) acc"
  by (induction d arbitrary: acc) (auto simp: skeleton_def inner_fold_keys split: prod.splits)

lemma module_of_skeleton:
  "module_of d i = fold (\<lambda>(m, ks) acc. if i \<in> set ks then Some m else acc) (skeleton d) None"
  by (simp add: module_of_def module_fold_skeleton)

lemma skeleton_map_node [simp]: "skeleton (map_node m i f d) = skeleton d"
  by (induction d) (auto simp: skeleton_def map_node_def map_fst_map_entry)

lemma module_of_map_node [simp]: "module_of (map_node m i f d) j = module_of d j"
  by (simp add: module_of_skeleton)




lemma input_conns_map_node_outputs [simp]:
  "input_conns (map_node m i (\<lambda>n. n\<lparr>outputs := g (outputs n)\<rparr>) d) m' i' ic' = input_conns d m' i' ic'"
  by (auto simp: input_conns_def map_node_def map_of_map_entry split: option.splits)


lemma output_conns_map_node_inputs [simp]:
  "output_conns (map_node m i (\<lambda>n. n\<lparr>inputs := g (inputs n)\<rparr>) d) m' i' oc' = output_conns d m' i' oc'"
  by (auto simp: output_conns_def map_node_def map_of_map_entry split: option.splits)


subsection \<open>One call of addConnection\<close>




section \<open>Connecting\<close>

text \<open>
  Claim C2 (no self-loops): a call of \<open>addConnection\<close> with the same node on both ends
  should be a no-op.  \<open>addConnection\<close> has no such test (the test is in \<open>dragEnd\<close>, for a
  connection drawn with the pointer).  Node 1 of module \<open>Other\<close> has an empty
  \<open>output_1\<close> and an empty \<open>input_1\<close>; the call returns normally, both lists hold an entry
  that names node 1 itself, and \<open>connectionCreated\<close> is dispatched.
\<close>

theorem addConnection_self_loop:
  "(let s = other_module_editor;
        r = addConnection ''1'' ''1'' ''output_1'' ''input_1'' s
    in output_conns (drawflow s) ''Other'' ''1'' ''output_1'' = Some [] \<and>
       input_conns (drawflow s) ''Other'' ''1'' ''input_1'' = Some [] \<and>
       fst r = Inr () \<and>
       output_conns (drawflow (snd r)) ''Other'' ''1'' ''output_1'' =
         Some [\<lparr>node = ''1'', port = ''input_1'', points = None\<rparr>] \<and>
       input_conns (drawflow (snd r)) ''Other'' ''1'' ''input_1'' =
         Some [\<lparr>node = ''1'', port = ''output_1'', points = None\<rparr>] \<and>
       events (snd r) = events s @ [ConnectionCreated ''1'' ''1'' ''output_1'' ''input_1''])"
  by code_simp

text \<open>The same happens for a node of the module that is shown.\<close>

lemma addConnection_self_loop_shown:
  "output_conns (drawflow (snd (addConnection ''1'' ''1'' ''output_1'' ''input_1'' two_nodes)))
     ''Home'' ''1'' ''output_1'' = Some [\<lparr>node = ''1'', port = ''input_1'', points = None\<rparr>]"
  by code_simp



section \<open>Removing a node\<close>

text \<open>
  Claim C5 (cascade on node removal): after \<open>removeNodeId\<close> no entry of the store should
  name the removed node.  \<open>removeConnectionNodeId\<close> finds the connections of the node as
  elements of the page, and the page shows the active module only.  Nodes 1 and 2 live in
  module \<open>Other\<close> while \<open>Home\<close> is shown, and output_1 of node 1 is connected to input_1
  of node 2.  \<open>removeNodeId\<close> returns normally, the record of node 1 is gone, and input_1
  of node 2 still holds the entry that names node 1.
\<close>

theorem removeNodeId_other_module_dangling:
  "(let s = snd (addConnection ''1'' ''2'' ''output_1'' ''input_1'' other_module_editor);
        r = removeNodeId ''node-1'' s
    in module s = ''Home'' \<and>
       getModuleFromNodeId s ''1'' = Some ''Other'' \<and>
       output_conns (drawflow s) ''Other'' ''1'' ''output_1'' =
         Some [\<lparr>node = ''2'', port = ''input_1'', points = None\<rparr>] \<and>
       fst r = Inr () \<and>
       \<not> has_node (drawflow (snd r)) ''1'' \<and>
       input_conns (drawflow (snd r)) ''Other'' ''2'' ''input_1'' =
         Some [\<lparr>node = ''1'', port = ''output_1'', points = None\<rparr>] \<and>
       events (snd r) = events s @ [NodeRemoved ''1''])"
  by code_simp

text \<open>For the module that is shown the connections go first, as the claim says.\<close>

lemma removeNodeId_shown_example:
  "(let s = snd (addConnection ''1'' ''2'' ''output_1'' ''input_1'' two_nodes);
        r = removeNodeId ''node-1'' s
    in fst r = Inr () \<and> \<not> has_node (drawflow (snd r)) ''1'' \<and>
       input_conns (drawflow (snd r)) ''Home'' ''2'' ''input_1'' = Some [] \<and>
       events (snd r) = events s @ [ConnectionRemoved ''1'' ''2'' ''output_1'' ''input_1'', NodeRemoved ''1''])"
  by code_simp




section \<open>Modules\<close>

text \<open>
  Claim C10 (active-module fallback): after \<open>removeModule\<close> the active module should
  still exist, also when the module removed is the default one.  \<open>removeModule\<close> switches
  to \<open>Home\<close> and then deletes the module named, so removing \<open>Home\<close> while it is shown
  leaves \<open>this.module = Home\<close> with no such module in the store.  And once \<open>Home\<close> is
  gone, removing the module that is shown throws in \<open>changeModule\<close> and removes nothing.
\<close>

theorem removeModule_home_dangling:
  "(let r = removeModule ''Home'' new_Drawflow
    in fst r = Inr () \<and> module (snd r) = ''Home'' \<and>
       map_of (drawflow (snd r)) (module (snd r)) = None \<and>
       events (snd r) = [ModuleChanged ''Home'', ModuleRemoved ''Home'']) \<and>
   (let s = home_removed_editor; r = removeModule ''Other'' s
    in module s = ''Other'' \<and> map fst (drawflow s) = [''Other''] \<and>
       fst r = Inl (Error ''Module 'Home' does not exist.'') \<and> snd r = s)"
  by code_simp

section \<open>Zoom\<close>

lemma zoom_in_fields:
  "zoom (zoom_in s) = (if zoom s < zoom_max s then zoom s + zoom_value s else zoom s)"
  "zoom_max (zoom_in s) = zoom_max s" "zoom_min (zoom_in s) = zoom_min s"
  "zoom_value (zoom_in s) = zoom_value s"
  by (simp_all add: zoom_in_def zoom_refresh_def dispatch_def Let_def)

lemma zoom_out_fields:
  "zoom (zoom_out s) = (if zoom s > zoom_min s then zoom s - zoom_value s else zoom s)"
  "zoom_max (zoom_out s) = zoom_max s" "zoom_min (zoom_out s) = zoom_min s"
  "zoom_value (zoom_out s) = zoom_value s"
  by (simp_all add: zoom_out_def zoom_refresh_def dispatch_def Let_def)

text \<open>
  Claim C8 (zoom clamping): \<open>zoom_in\<close> should never move the zoom level above
  \<open>zoom_max\<close>, nor \<open>zoom_out\<close> below \<open>zoom_min\<close>.  Both test the bound before the step
  and then add or subtract \<open>zoom_value\<close> without clamping.  With the step set to 0.25
  three calls of \<open>zoom_in\<close> from 1 end at 1.75, above \<open>zoom_max = 1.6\<close>; with the step set
  to 0.2 three calls of \<open>zoom_out\<close> end at 0.4, below \<open>zoom_min = 0.5\<close>.
\<close>

theorem zoom_not_clamped:
  "(let s = (zoom_in ^^ 3) (new_Drawflow\<lparr>zoom_value := 1 / 4\<rparr>)
    in zoom s = 7 / 4 \<and> zoom_max s = 8 / 5 \<and> zoom_max s < zoom s) \<and>
   (let s = (zoom_out ^^ 3) (new_Drawflow\<lparr>zoom_value := 1 / 5\<rparr>)
    in zoom s = 2 / 5 \<and> zoom_min s = 1 / 2 \<and> zoom s < zoom_min s)"
  by (simp add: eval_nat_numeral zoom_in_fields zoom_out_fields new_Drawflow_def)

text \<open>With the default step, on exact numbers, the seventh call does nothing.\<close>

lemma zoom_in_seven_times_default:
  "zoom ((zoom_in ^^ 6) new_Drawflow) = 16 / 10 \<and> zoom ((zoom_in ^^ 7) new_Drawflow) = 16 / 10"
  by (simp add: eval_nat_numeral zoom_in_fields new_Drawflow_def)


section \<open>Facts about the parser and the serialiser\<close>

lemma those_map_Some:
  "list_all2 (\<lambda>v j. f v = Some j) vs js \<Longrightarrow> those (map f vs) = Some js"
  by (induction rule: list_all2_induct) auto

lemma made_ext: "made k h v j \<Longrightarrow> made k (h @ e) v j"
  by (auto simp: made_def)

lemma closed_from_snoc:
  assumes "closed_from k h" and "\<And>a. VRef a \<in> set (vals ob) \<Longrightarrow> k \<le> a \<and> a < length h"
  shows "closed_from k (h @ [ob])"
  unfolding closed_from_def
proof (intro allI impI)
  fix b a assume b: "k \<le> b" "b < length (h @ [ob])" and a: "VRef a \<in> set (vals ((h @ [ob]) ! b))"
  show "k \<le> a \<and> a < b"
  proof (cases "b < length h")
    case True
    then have "(h @ [ob]) ! b = h ! b" by (simp only: nth_append if_True)
    then have a': "VRef a \<in> set (vals (h ! b))" using a by (simp only:)
    from assms(1) have "\<forall>b a. k \<le> b \<longrightarrow> b < length h \<longrightarrow> VRef a \<in> set (vals (h ! b)) \<longrightarrow> k \<le> a \<and> a < b"
      by (simp only: closed_from_def)
    then show ?thesis using b(1) True a' by blast
  next
    case False
    then have eq: "b = length h" using b(2) by simp
    then have "(h @ [ob]) ! b = ob" by simp
    then have "VRef a \<in> set (vals ob)" using a by (simp only:)
    then show ?thesis using assms(2) eq by blast
  qed
qed

lemma parts_ok_ext: "parts_ok k h vs js \<Longrightarrow> parts_ok k (h @ e) vs js"
  unfolding parts_ok_def by (erule list_all2_mono) (rule made_ext)

lemma parse_fold_arr:
  assumes IH: "\<And>j h v h'. j \<in> set js \<Longrightarrow> JSON_parse j h = (v, h') \<Longrightarrow> closed_from k h \<Longrightarrow> k \<le> length h \<Longrightarrow>
                 (\<exists>ext. h' = h @ ext) \<and> made k h' v j \<and> closed_from k h'"
    and "fold (\<lambda>j (vs, h). let (v, h1) = JSON_parse j h in (vs @ [v], h1)) js (vs0, h0) = (vs, h')"
    and "closed_from k h0" and "parts_ok k h0 vs0 js0" and "k \<le> length h0"
  shows "(\<exists>ext. h' = h0 @ ext) \<and> parts_ok k h' vs (js0 @ js) \<and> closed_from k h'"
  using assms
proof (induction js arbitrary: vs0 h0 js0)
  case Nil
  then show ?case by simp
next
  case (Cons j js)
  obtain v h1 where p: "JSON_parse j h0 = (v, h1)" by (cases "JSON_parse j h0")
  have step: "(\<exists>ext. h1 = h0 @ ext) \<and> made k h1 v j \<and> closed_from k h1"
    using Cons.prems(1)[OF _ p Cons.prems(3) Cons.prems(5)] by simp
  then obtain e1 where e1: "h1 = h0 @ e1" by blast
  have ok1: "parts_ok k h1 (vs0 @ [v]) (js0 @ [j])"
    using parts_ok_ext[OF Cons.prems(4), of e1] step e1
    by (simp add: parts_ok_def list_all2_appendI)
  have rest: "fold (\<lambda>j (vs, h). let (v, h1) = JSON_parse j h in (vs @ [v], h1)) js (vs0 @ [v], h1) = (vs, h')"
    using Cons.prems(2) p by simp
  have IH': "(\<exists>ext. h' = h @ ext) \<and> made k h' v j' \<and> closed_from k h'"
    if "j' \<in> set js" "JSON_parse j' h = (v, h')" "closed_from k h" "k \<le> length h" for j' h v h'
    by (rule Cons.prems(1)[OF _ that(2,3,4)]) (simp add: that(1))
  have c1: "closed_from k h1" using step by simp
  have k1: "k \<le> length h1" using e1 Cons.prems(5) by simp
  have "(\<exists>ext. h' = h1 @ ext) \<and> parts_ok k h' vs ((js0 @ [j]) @ js) \<and> closed_from k h'"
    using Cons.IH[OF IH' rest c1 ok1 k1] by simp
  then show ?case using e1 by auto
qed

lemma parse_fold_obj:
  assumes IH: "\<And>kj h v h'. kj \<in> set fs \<Longrightarrow> JSON_parse (snd kj) h = (v, h') \<Longrightarrow> closed_from k h \<Longrightarrow> k \<le> length h \<Longrightarrow>
                 (\<exists>ext. h' = h @ ext) \<and> made k h' v (snd kj) \<and> closed_from k h'"
    and "fold (\<lambda>kj (kvs, h). let (v, h1) = JSON_parse (snd kj) h in (kvs @ [(fst kj, v)], h1)) fs (kvs0, h0) = (kvs, h')"
    and "closed_from k h0" and "parts_ok k h0 (map snd kvs0) (map snd fs0)" and "map fst kvs0 = map fst fs0"
    and "k \<le> length h0"
  shows "(\<exists>ext. h' = h0 @ ext) \<and> parts_ok k h' (map snd kvs) (map snd (fs0 @ fs)) \<and>
         map fst kvs = map fst (fs0 @ fs) \<and> closed_from k h'"
  using assms
proof (induction fs arbitrary: kvs0 h0 fs0)
  case Nil
  then show ?case by simp
next
  case (Cons kj fs)
  obtain v h1 where p: "JSON_parse (snd kj) h0 = (v, h1)" by (cases "JSON_parse (snd kj) h0")
  have step: "(\<exists>ext. h1 = h0 @ ext) \<and> made k h1 v (snd kj) \<and> closed_from k h1"
    using Cons.prems(1)[OF _ p Cons.prems(3) Cons.prems(6)] by simp
  then obtain e1 where e1: "h1 = h0 @ e1" by blast
  have ok1: "parts_ok k h1 (map snd (kvs0 @ [(fst kj, v)])) (map snd (fs0 @ [kj]))"
    using parts_ok_ext[OF Cons.prems(4), of e1] step e1
    by (simp add: parts_ok_def list_all2_appendI)
  have keys1: "map fst (kvs0 @ [(fst kj, v)]) = map fst (fs0 @ [kj])"
    using Cons.prems(5) by simp
  have rest: "fold (\<lambda>kj (kvs, h). let (v, h1) = JSON_parse (snd kj) h in (kvs @ [(fst kj, v)], h1)) fs
                (kvs0 @ [(fst kj, v)], h1) = (kvs, h')"
    using Cons.prems(2) p by simp
  have IH': "(\<exists>ext. h' = h @ ext) \<and> made k h' v (snd kj') \<and> closed_from k h'"
    if "kj' \<in> set fs" "JSON_parse (snd kj') h = (v, h')" "closed_from k h" "k \<le> length h" for kj' h v h'
    by (rule Cons.prems(1)[OF _ that(2,3,4)]) (simp add: that(1))
  have c1: "closed_from k h1" using step by simp
  have k1: "k \<le> length h1" using e1 Cons.prems(6) by simp
  have "(\<exists>ext. h' = h1 @ ext) \<and> parts_ok k h' (map snd kvs) (map snd ((fs0 @ [kj]) @ fs)) \<and>
         map fst kvs = map fst ((fs0 @ [kj]) @ fs) \<and> closed_from k h'"
    using Cons.IH[OF IH' rest c1 ok1 keys1 k1] by simp
  then show ?case using e1 by auto
qed

lemma made_prim [simp]:
  "made k h VNull JNull" "made k h (VBool b) (JBool b)" "made k h (VNum x) (JNum x)" "made k h (VStr y) (JStr y)"
  by (simp_all add: made_def rank_def)

lemma parts_refs:
  "parts_ok k h vs js \<Longrightarrow> VRef a \<in> set vs \<Longrightarrow> k \<le> a \<and> a < length h"
  by (auto simp: parts_ok_def list_all2_conv_all_nth in_set_conv_nth made_def rank_def)

lemma parts_ser:
  assumes "parts_ok k h vs js" and "length h \<le> n"
  shows "those (map (ser n (h @ e)) vs) = Some js"
proof (rule those_map_Some)
  show "list_all2 (\<lambda>v j. ser n (h @ e) v = Some j) vs js"
    using assms(1) unfolding parts_ok_def
    by (rule list_all2_mono) (use assms(2) in \<open>auto simp: made_def\<close>)
qed

lemma parts_no_undefined: "parts_ok k h vs js \<Longrightarrow> VUndefined \<notin> set vs"
  by (auto simp: parts_ok_def list_all2_conv_all_nth in_set_conv_nth made_def)

lemma made_arr:
  assumes "parts_ok k h vs js" and "k \<le> length h"
  shows "made k (h @ [Arr vs]) (VRef (length h)) (JArr js)"
  unfolding made_def
proof (intro conjI allI impI)
  fix n ext assume "rank (VRef (length h)) \<le> n"
  then obtain n' where n: "n = Suc n'" "length h \<le> n'"
    by (cases n) (auto simp: rank_def)
  show "ser n ((h @ [Arr vs]) @ ext) (VRef (length h)) = Some (JArr js)"
    using parts_ser[OF assms(1) n(2), of "[Arr vs] @ ext"] n by (simp add: nth_append)
qed (use assms in \<open>auto simp: rank_def\<close>)


lemma parts_ser_fields:
  assumes "parts_ok k h (map snd kvs) js" and "length h \<le> n" and "map fst kvs = ks" and "length ks = length js"
  shows "those (map (\<lambda>kv. map_option (Pair (fst kv)) (ser n (h @ e) (snd kv))) kvs) = Some (zip ks js)"
  using assms
proof (induction kvs arbitrary: js ks)
  case Nil
  then show ?case by simp
next
  case (Cons kv kvs)
  then obtain j js' where js: "js = j # js'" by (cases js) (auto simp: parts_ok_def)
  have m: "made k h (snd kv) j" and rest: "parts_ok k h (map snd kvs) js'"
    using Cons.prems(1) js by (simp_all add: parts_ok_def)
  have s: "ser n (h @ e) (snd kv) = Some j"
    using m Cons.prems(2) by (auto simp: made_def)
  have "those (map (\<lambda>kv. map_option (Pair (fst kv)) (ser n (h @ e) (snd kv))) kvs) = Some (zip (map fst kvs) js')"
    using Cons.IH[OF rest Cons.prems(2) refl] Cons.prems(3,4) js by auto
  then show ?case using s js Cons.prems(3) by auto
qed

lemma made_obj:
  assumes "parts_ok k h (map snd kvs) (map snd fs)" and "map fst kvs = map fst fs" and "k \<le> length h"
  shows "made k (h @ [Obj kvs]) (VRef (length h)) (JObj fs)"
  unfolding made_def
proof (intro conjI allI impI)
  fix n ext assume "rank (VRef (length h)) \<le> n"
  then obtain n' where n: "n = Suc n'" "length h \<le> n'"
    by (cases n) (auto simp: rank_def)
  have nf: "filter (\<lambda>kv. snd kv \<noteq> VUndefined) kvs = kvs"
    using parts_no_undefined[OF assms(1)] by (force simp: filter_id_conv)
  have "those (map (\<lambda>kv. map_option (Pair (fst kv)) (ser n' (h @ ([Obj kvs] @ ext)) (snd kv))) kvs)
          = Some (zip (map fst fs) (map snd fs))"
    by (rule parts_ser_fields[OF assms(1) n(2) assms(2)]) simp
  then show "ser n ((h @ [Obj kvs]) @ ext) (VRef (length h)) = Some (JObj fs)"
    using n nf by (simp add: nth_append zip_map_fst_snd)
qed (use assms in \<open>auto simp: rank_def\<close>)

lemma parse_made:
  "JSON_parse j h = (v, h') \<Longrightarrow> closed_from k h \<Longrightarrow> k \<le> length h \<Longrightarrow>
   (\<exists>ext. h' = h @ ext) \<and> made k h' v j \<and> closed_from k h'"
proof (induction j arbitrary: h v h')
  case (JArr js)
  obtain vs hk where f: "fold (\<lambda>j (vs, h). let (v, h1) = JSON_parse j h in (vs @ [v], h1)) js ([], h) = (vs, hk)"
    by (cases "fold (\<lambda>j (vs, h). let (v, h1) = JSON_parse j h in (vs @ [v], h1)) js ([], h)")
  have res: "v = VRef (length hk)" "h' = hk @ [Arr vs]"
    using JArr.prems(1) f by simp_all
  have IH: "(\<exists>ext. h' = h @ ext) \<and> made k h' v j \<and> closed_from k h'"
    if "j \<in> set js" "JSON_parse j h = (v, h')" "closed_from k h" "k \<le> length h" for j h v h'
    using JArr.IH[OF that] .
  have e0: "parts_ok k h [] []" by (simp add: parts_ok_def)
  have "(\<exists>ext. hk = h @ ext) \<and> parts_ok k hk vs ([] @ js) \<and> closed_from k hk"
    by (rule parse_fold_arr[OF IH f JArr.prems(2) e0 JArr.prems(3)])
  then have ext: "\<exists>ext. hk = h @ ext" and ok: "parts_ok k hk vs js" and cl: "closed_from k hk"
    by simp_all
  have kl: "k \<le> length hk" using ext JArr.prems(3) by auto
  have "closed_from k (hk @ [Arr vs])"
    by (rule closed_from_snoc[OF cl]) (use parts_refs[OF ok] in \<open>simp add: vals_def\<close>)
  then show ?case
    using ext made_arr[OF ok kl] res by auto
next
  case (JObj fs)
  obtain kvs hk where f: "fold (\<lambda>kj (kvs, h). let (v, h1) = JSON_parse (snd kj) h in (kvs @ [(fst kj, v)], h1))
                           fs ([], h) = (kvs, hk)"
    by (cases "fold (\<lambda>kj (kvs, h). let (v, h1) = JSON_parse (snd kj) h in (kvs @ [(fst kj, v)], h1)) fs ([], h)")
  have res: "v = VRef (length hk)" "h' = hk @ [Obj kvs]"
    using JObj.prems(1) f by simp_all
  have IH: "(\<exists>ext. h' = h @ ext) \<and> made k h' v (snd kj) \<and> closed_from k h'"
    if "kj \<in> set fs" "JSON_parse (snd kj) h = (v, h')" "closed_from k h" "k \<le> length h" for kj h v h'
    by (rule JObj.IH[OF that(1) _ that(2,3,4)]) (cases kj, simp)
  have e0: "parts_ok k h (map snd ([]::(string \<times> jsval) list)) (map snd ([]::(string \<times> json) list))"
    by (simp add: parts_ok_def)
  have k0: "map fst ([]::(string \<times> jsval) list) = map fst ([]::(string \<times> json) list)"
    by simp
  have "(\<exists>ext. hk = h @ ext) \<and> parts_ok k hk (map snd kvs) (map snd ([] @ fs)) \<and>
         map fst kvs = map fst ([] @ fs) \<and> closed_from k hk"
    by (rule parse_fold_obj[OF IH f JObj.prems(2) e0 k0 JObj.prems(3)])
  then have ext: "\<exists>ext. hk = h @ ext" and ok: "parts_ok k hk (map snd kvs) (map snd fs)"
    and keys: "map fst kvs = map fst fs" and cl: "closed_from k hk"
    by simp_all
  have kl: "k \<le> length hk" using ext JObj.prems(3) by auto
  have "closed_from k (hk @ [Obj kvs])"
    by (rule closed_from_snoc[OF cl]) (use parts_refs[OF ok] in \<open>simp add: vals_def\<close>)
  then show ?case
    using ext made_obj[OF ok keys kl] res by auto
qed (auto)

lemma those_map_cong:
  "those (map f xs) = Some ys \<Longrightarrow> (\<And>x y. x \<in> set xs \<Longrightarrow> f x = Some y \<Longrightarrow> g x = Some y) \<Longrightarrow>
   those (map g xs) = Some ys"
proof (induction xs arbitrary: ys)
  case Nil
  then show ?case by simp
next
  case (Cons x xs)
  from Cons.prems(1) obtain y ys' where y: "f x = Some y" "those (map f xs) = Some ys'" "ys = y # ys'"
    by (auto split: option.splits)
  have "g x = Some y" using Cons.prems(2) y(1) by simp
  moreover have "those (map g xs) = Some ys'"
    by (rule Cons.IH[OF y(2)]) (use Cons.prems(2) in simp)
  ultimately show ?case using y(3) by simp
qed

text \<open>Reading a value needs only the objects it reads: more fuel and a heap that agrees
  on the old addresses give the same tree.\<close>

lemma ser_agree:
  "ser n h v = Some j \<Longrightarrow> n \<le> n' \<Longrightarrow> length h \<le> length h2 \<Longrightarrow>
   (\<And>a. a < length h \<Longrightarrow> h2 ! a = h ! a) \<Longrightarrow> ser n' h2 v = Some j"
proof (induction n arbitrary: v j n')
  case 0
  then show ?case by (cases v) auto
next
  case (Suc n)
  show ?case
  proof (cases v)
    case (VRef a)
    obtain m where m: "n' = Suc m" "n \<le> m" using Suc.prems(2) by (cases n') auto
    have a: "a < length h" using Suc.prems(1) VRef by (auto split: if_splits)
    have same: "h2 ! a = h ! a" using Suc.prems(4) a by simp
    have IH: "ser m h2 w = Some jw" if "ser n h w = Some jw" for w jw
      using Suc.IH[OF that m(2) Suc.prems(3) Suc.prems(4)] by simp
    show ?thesis
    proof (cases "h ! a")
      case (Obj fs)
      from Suc.prems(1) VRef a Obj obtain kjs where
        k: "those (map (\<lambda>kv. map_option (Pair (fst kv)) (ser n h (snd kv)))
                           (filter (\<lambda>kv. snd kv \<noteq> VUndefined) fs)) = Some kjs" "j = JObj kjs"
        by auto
      have "those (map (\<lambda>kv. map_option (Pair (fst kv)) (ser m h2 (snd kv)))
                           (filter (\<lambda>kv. snd kv \<noteq> VUndefined) fs)) = Some kjs"
        by (rule those_map_cong[OF k(1)]) (auto dest: IH)
      then show ?thesis using VRef m a same Obj k(2) Suc.prems(3) by simp
    next
      case (Arr xs)
      from Suc.prems(1) VRef a Arr obtain js where
        k: "those (map (ser n h) xs) = Some js" "j = JArr js"
        by auto
      have "those (map (ser m h2) xs) = Some js"
        by (rule those_map_cong[OF k(1)]) (auto dest: IH)
      then show ?thesis using VRef m a same Arr k(2) Suc.prems(3) by simp
    qed
  qed (use Suc.prems(1) in auto)
qed

lemma JSON_stringify_agree:
  assumes "JSON_stringify h v = Some j" and "length h \<le> length h2"
    and "\<And>a. a < length h \<Longrightarrow> h2 ! a = h ! a"
  shows "JSON_stringify h2 v = Some j"
  using ser_agree[OF assms(1)[unfolded JSON_stringify_def] _ assms(2,3), of "Suc (length h2)"] assms(2)
  by (simp add: JSON_stringify_def)

lemma get_prop_agree:
  assumes "get_prop h v k = Some x" and "length h \<le> length h2"
    and "\<And>a. a < length h \<Longrightarrow> h2 ! a = h ! a"
  shows "get_prop h2 v k = Some x"
  using assms by (cases v) (auto simp: get_prop_def split: if_splits)

lemma closed_from_reach:
  "reach h v b \<Longrightarrow> closed_from k h \<Longrightarrow> (\<And>a. v = VRef a \<Longrightarrow> k \<le> a) \<Longrightarrow> k \<le> b"
proof (induction rule: reach.induct)
  case (here a h)
  then show ?case by simp
next
  case (step a h w b)
  have ka: "k \<le> a" using step.prems(2) by simp
  have "k \<le> a'" if "w = VRef a'" for a'
    using step.prems(1) step.hyps(1,2) ka that unfolding closed_from_def by blast
  then show ?case using step.IH[OF step.prems(1)] by blast
qed

lemma closed_from_length: "closed_from (length h) h"
  by (simp add: closed_from_def)

text \<open>The copy: an equal tree, in objects that are all new.\<close>

lemma json_clone_copy:
  assumes "JSON_stringify (heap st) v = Some j" and "v \<noteq> VUndefined"
  shows "\<exists>r ext. json_clone v st = (Inr r, st\<lparr>heap := heap st @ ext\<rparr>) \<and> r \<noteq> VUndefined \<and>
           JSON_stringify (heap st @ ext) r = Some j \<and>
           (\<forall>b. reach (heap st @ ext) r b \<longrightarrow> length (heap st) \<le> b)"
proof -
  obtain r h' where p: "JSON_parse j (heap st) = (r, h')" by (cases "JSON_parse j (heap st)")
  from parse_made[OF p closed_from_length order_refl]
  obtain ext where ext: "h' = heap st @ ext" and m: "made (length (heap st)) h' r j"
    and cl: "closed_from (length (heap st)) h'" by blast
  have "\<forall>n ext. rank r \<le> n \<longrightarrow> ser n (h' @ ext) r = Some j" and rk: "rank r \<le> length h'"
    using m by (simp_all add: made_def)
  then have "ser (Suc (length h')) (h' @ []) r = Some j"
    using rk by (meson le_SucI)
  then have s: "JSON_stringify h' r = Some j"
    by (simp add: JSON_stringify_def)
  have f: "length (heap st) \<le> b" if "reach h' r b" for b
    by (rule closed_from_reach[OF that cl]) (use m in \<open>auto simp: made_def\<close>)
  have "r \<noteq> VUndefined" using m by (simp add: made_def)
  then show ?thesis
    using assms p ext s f by (auto simp: json_clone_def)
qed

lemma fold_set_object_agree:
  "list_all (\<lambda>w. k \<le> fst w) ws \<Longrightarrow>
   length (fold set_object ws h) = length h \<and> (\<forall>a < k. fold set_object ws h ! a = h ! a)"
  by (induction ws arbitrary: h) (auto simp: set_object_def)


section \<open>Snapshots and the round trip\<close>

text \<open>
  Claim C9 (snapshot isolation of getNodeFromId): for a node that is in the store, with a
  record that \<open>JSON.stringify\<close> can write (a tree, as the data model has it),
  \<open>getNodeFromId\<close> returns a value whose tree is the tree of the record, and every
  object this value leads to is new: it lies above all objects of the heap before the
  call.  So whatever is written afterwards into objects of the copy, the node is still
  found in the store under the same path, and its record (payload, ports, connection
  lists) still has the same tree.
\<close>

theorem getNodeFromId_heap_snapshot:
  assumes "getModuleFromNodeId_heap st i = Inr (Some m)"
    and "node_value st (Some m) i = Some v" and "v \<noteq> VUndefined"
    and "JSON_stringify (heap st) v = Some j"
  shows "\<exists>r st'. getNodeFromId_heap st i = (Inr r, st') \<and>
           this_drawflow st' = this_drawflow st \<and>
           JSON_stringify (heap st') r = Some j \<and>
           (\<forall>b. reach (heap st') r b \<longrightarrow> length (heap st) \<le> b) \<and>
           (\<forall>ws. list_all (\<lambda>w. length (heap st) \<le> fst w) ws \<longrightarrow>
              node_value (st'\<lparr>heap := fold set_object ws (heap st')\<rparr>) (Some m) i = Some v \<and>
              JSON_stringify (fold set_object ws (heap st')) v = Some j)"
proof -
  obtain r ext where c: "json_clone v st = (Inr r, st\<lparr>heap := heap st @ ext\<rparr>)"
      "JSON_stringify (heap st @ ext) r = Some j"
      "\<forall>b. reach (heap st @ ext) r b \<longrightarrow> length (heap st) \<le> b"
    using json_clone_copy[OF assms(4,3)] by blast
  let ?st' = "st\<lparr>heap := heap st @ ext\<rparr>"
  have g: "getNodeFromId_heap st i = (Inr r, ?st')"
    using assms(1,2) c(1) by (simp add: getNodeFromId_heap_def)
  have iso: "node_value (?st'\<lparr>heap := fold set_object ws (heap ?st')\<rparr>) (Some m) i = Some v \<and>
             JSON_stringify (fold set_object ws (heap ?st')) v = Some j"
    if ws: "list_all (\<lambda>w. length (heap st) \<le> fst w) ws" for ws
  proof -
    let ?h2 = "fold set_object ws (heap st @ ext)"
    have len: "length (heap st) \<le> length ?h2"
      and agree: "\<And>a. a < length (heap st) \<Longrightarrow> ?h2 ! a = heap st ! a"
      using fold_set_object_agree[OF ws, of "heap st @ ext"] by (simp_all add: nth_append)
    have s: "JSON_stringify ?h2 v = Some j"
      by (rule JSON_stringify_agree[OF assms(4) len agree])
    have gp: "get_prop ?h2 w k = Some x" if "get_prop (heap st) w k = Some x" for w k x
      by (rule get_prop_agree[OF that len agree])
    have "node_value (st\<lparr>heap := ?h2\<rparr>) (Some m) i = Some v"
      using assms(2) by (auto simp: node_value_def split: option.splits dest!: gp)
    then show ?thesis using s by simp
  qed
  show ?thesis
    using g c(2,3) iso by (intro exI[of _ r] exI[of _ ?st']) simp
qed


theorem getNodeFromId_heap_snapshot_witness:
  "getModuleFromNodeId_heap heap_example ''1'' = Inr (Some ''Home'') \<and>
   node_value heap_example (Some ''Home'') ''1'' = Some (VRef 6) \<and>
   JSON_stringify (heap heap_example) (VRef 6) =
     Some (JObj [(''id'', JNum 1), (''name'', JStr ''a''), (''data'', JObj [(''k'', JStr ''v'')]),
                 (''inputs'', JObj []),
                 (''outputs'', JObj [(''output_1'', JObj [(''connections'',
                     JArr [JObj [(''node'', JStr ''2''), (''output'', JStr ''input_1'')]])])])]) \<and>
   (\<exists>r st'. getNodeFromId_heap heap_example ''1'' = (Inr r, st') \<and>
      this_drawflow st' = this_drawflow heap_example \<and>
      (\<forall>b. reach (heap st') r b \<longrightarrow> length (heap heap_example) \<le> b) \<and>
      (\<forall>ws. list_all (\<lambda>w. length (heap heap_example) \<le> fst w) ws \<longrightarrow>
         node_value (st'\<lparr>heap := fold set_object ws (heap st')\<rparr>) (Some ''Home'') ''1'' = Some (VRef 6) \<and>
         JSON_stringify (fold set_object ws (heap st')) (VRef 6) =
           JSON_stringify (heap heap_example) (VRef 6)))"
proof -
  have h1: "getModuleFromNodeId_heap heap_example ''1'' = Inr (Some ''Home'')" by code_simp
  have h2: "node_value heap_example (Some ''Home'') ''1'' = Some (VRef 6)" by code_simp
  have h3: "VRef 6 \<noteq> VUndefined" by simp
  have h4: "JSON_stringify (heap heap_example) (VRef 6) =
     Some (JObj [(''id'', JNum 1), (''name'', JStr ''a''), (''data'', JObj [(''k'', JStr ''v'')]),
                 (''inputs'', JObj []),
                 (''outputs'', JObj [(''output_1'', JObj [(''connections'',
                     JArr [JObj [(''node'', JStr ''2''), (''output'', JStr ''input_1'')]])])])])"
    by code_simp
  show ?thesis
    using getNodeFromId_heap_snapshot[OF h1 h2 h3 h4] h1 h2 h4 by auto
qed

text \<open>An instance: the copy of node 1 is at address 17; emptying it and the array of its
  connections leaves the record in the store as it was.\<close>

lemma getNodeFromId_heap_example:
  "(let r = getNodeFromId_heap heap_example ''1'';
        h2 = fold set_object [(17, Obj []), (13, Arr [])] (heap (snd r))
    in fst r = Inr (VRef 17) \<and>
       JSON_stringify h2 (VRef 17) = Some (JObj []) \<and>
       JSON_stringify h2 (VRef 6) = JSON_stringify (heap heap_example) (VRef 6))"
  by code_simp



text \<open>On the model of the editor with its page, \<open>import\<close> of what \<open>export\<close> returned
  leaves the store as it was, whatever \<open>load\<close> does.\<close>

lemma drawflow_for_each:
  "(\<And>x s. drawflow (snd (f x s)) = drawflow s) \<Longrightarrow> drawflow (snd (for_each f xs s)) = drawflow s"
proof (induction xs arbitrary: s)
  case Nil
  then show ?case by simp
next
  case (Cons x xs)
  obtain r s' where f: "f x s = (r, s')" by (cases "f x s")
  have "drawflow s' = drawflow s" using Cons.prems[of x s] f by simp
  then show ?case using f Cons.IH[OF Cons.prems, of s'] by (cases r) simp_all
qed

lemma drawflow_load: "drawflow (snd (load s)) = drawflow s"
proof -
  have a: "drawflow (snd (for_each addNodeImport xs s)) = drawflow s" for xs s
    by (rule drawflow_for_each) (simp add: addNodeImport_def Let_def)
  have b: "drawflow (snd (for_each addRerouteImport xs s)) = drawflow s" for xs s
    by (rule drawflow_for_each) (simp add: addRerouteImport_def)
  show ?thesis
  proof (cases "map_of (drawflow s) (module s)")
    case None
    then show ?thesis by (simp add: load_def)
  next
    case (Some dat)
    obtain r1 s1 where 1: "for_each addNodeImport (map snd dat) s = (r1, s1)"
      by (cases "for_each addNodeImport (map snd dat) s")
    have d1: "drawflow s1 = drawflow s" using a[of "map snd dat" s] 1 by simp
    obtain r2 s2 where 2: "for_each addRerouteImport (map snd dat) s1 = (r2, s2)"
      by (cases "for_each addRerouteImport (map snd dat) s1")
    have d2: "drawflow s2 = drawflow s" using b[of "map snd dat" s1] 2 d1 by simp
    show ?thesis
      using Some 1 2 d1 d2 by (cases r1; cases r2) (simp_all add: load_def)
  qed
qed

lemma export_import_store:
  "drawflow (snd (import (fst (export s)) notifi (snd (export s)))) = drawflow s"
proof -
  let ?s2 = "(clear (snd (export s)))\<lparr>drawflow := drawflow s\<rparr>"
  have "drawflow (snd (load ?s2)) = drawflow s"
    using drawflow_load[of ?s2] by simp
  then show ?thesis
    by (auto simp: import_def export_def Let_def dispatch_def split: prod.splits sum.splits)
qed


end
